theory Spec2Isabelle
  imports Complex_Main "HOL-Library.Word"
begin

unbundle bit_operations_syntax

section \<open>Exceptions and responses\<close>

text \<open>
  Python exceptions are values. \<open>RequestValidationError\<close> is what the web framework
  raises when a request body does not validate against its pydantic model, before the
  endpoint's body runs (status 422); \<open>ValidationError\<close> is pydantic's own error, raised
  when a model is constructed by the code. \<open>HTTPException\<close> carries the status code and
  the detail string.
\<close>

datatype exn =
    ValueError string
  | ValidationError string
  | UnicodeEncodeError
  | InvalidId string
  | AttributeError
  | TypeError
  | RequestValidationError string
  | HTTPException nat string

text \<open>\<open>except ValueError\<close>: pydantic's ValidationError and UnicodeEncodeError are
  subclasses of ValueError; bson's InvalidId is not.\<close>

fun is_ValueError :: "exn \<Rightarrow> bool" where
  "is_ValueError (ValueError m) = True"
| "is_ValueError (ValidationError m) = True"
| "is_ValueError UnicodeEncodeError = True"
| "is_ValueError e = False"

fun str_exn :: "exn \<Rightarrow> string" where
  "str_exn (ValueError m) = m"
| "str_exn (ValidationError m) = m"
| "str_exn (InvalidId m) = m"
| "str_exn (RequestValidationError m) = m"
| "str_exn (HTTPException c m) = m"
| "str_exn UnicodeEncodeError = ''codec can't encode character''"
| "str_exn AttributeError = ''attribute error''"
| "str_exn TypeError = ''type error''"

text \<open>The status code the framework answers with: an HTTPException's own code, 422 for
  a request that failed validation, 500 for any other exception that leaves the
  endpoint, 200 for a returned value.\<close>

fun status_code :: "exn + 'a \<Rightarrow> nat" where
  "status_code (Inr v) = 200"
| "status_code (Inl (HTTPException c m)) = c"
| "status_code (Inl (RequestValidationError m)) = 422"
| "status_code (Inl e) = 500"

section \<open>Passwords: UTF-8 and the 72-byte truncation (core/auth.py)\<close>

text \<open>
  A password and a password hash are Python \<open>str\<close> values whose UTF-8 length matters:
  they are lists of Unicode code points. Bytes are 8-bit words.
\<close>

type_synonym unicode = "nat list"
type_synonym byte = "8 word"

text \<open>\<open>str.encode('utf-8')\<close>, one code point: surrogates cannot be encoded. A Python
  string holds no code point above 0x10FFFF; the model refuses one.\<close>

definition utf8_encode_char :: "nat \<Rightarrow> exn + byte list" where
  "utf8_encode_char c =
     (if c < 0x80 then Inr [of_nat c]
      else if c < 0x800 then Inr [of_nat (0xC0 + c div 64), of_nat (0x80 + c mod 64)]
      else if 0xD800 \<le> c \<and> c \<le> 0xDFFF then Inl UnicodeEncodeError
      else if c < 0x10000 then
        Inr [of_nat (0xE0 + c div 4096), of_nat (0x80 + (c div 64) mod 64),
             of_nat (0x80 + c mod 64)]
      else if c < 0x110000 then
        Inr [of_nat (0xF0 + c div 262144), of_nat (0x80 + (c div 4096) mod 64),
             of_nat (0x80 + (c div 64) mod 64), of_nat (0x80 + c mod 64)]
      else Inl UnicodeEncodeError)"

fun encode_utf8 :: "unicode \<Rightarrow> exn + byte list" where
  "encode_utf8 [] = Inr []"
| "encode_utf8 (c # cs) =
     (case utf8_encode_char c of
        Inl e \<Rightarrow> Inl e
      | Inr bs \<Rightarrow> (case encode_utf8 cs of Inl e \<Rightarrow> Inl e | Inr r \<Rightarrow> Inr (bs @ r)))"

definition is_continuation :: "byte \<Rightarrow> bool" where
  "is_continuation b = (b AND 0xC0 = 0x80)"

definition low6 :: "byte \<Rightarrow> nat" where
  "low6 b = unat (b AND 0x3F)"

text \<open>
  \<open>bytes.decode('utf-8', errors='ignore')\<close>: a start byte that cannot begin a sequence
  is skipped; a sequence broken by a byte that cannot continue it loses the bytes read
  so far, and decoding resumes at the offending byte; a sequence cut by the end of the
  data is dropped. Overlong forms, surrogates and values above 0x10FFFF are rejected at
  the second byte, as the interpreter's decoder does.
\<close>

fun decode_utf8_ignore :: "byte list \<Rightarrow> unicode" where
  "decode_utf8_ignore [] = []"
| "decode_utf8_ignore (b # bs) =
     (if b < 0x80 then unat b # decode_utf8_ignore bs
      else if b < 0xC2 then decode_utf8_ignore bs
      else if b < 0xE0 then
        (case bs of
           [] \<Rightarrow> []
         | b2 # r \<Rightarrow>
             if is_continuation b2
             then (unat (b AND 0x1F) * 64 + low6 b2) # decode_utf8_ignore r
             else decode_utf8_ignore (b2 # r))
      else if b < 0xF0 then
        (case bs of
           [] \<Rightarrow> []
         | b2 # r2 \<Rightarrow>
             if \<not> is_continuation b2 \<or> (if b2 < 0xA0 then b = 0xE0 else b = 0xED)
             then decode_utf8_ignore (b2 # r2)
             else (case r2 of
                     [] \<Rightarrow> []
                   | b3 # r \<Rightarrow>
                       if is_continuation b3
                       then (unat (b AND 0x0F) * 4096 + low6 b2 * 64 + low6 b3)
                              # decode_utf8_ignore r
                       else decode_utf8_ignore (b3 # r)))
      else if b < 0xF5 then
        (case bs of
           [] \<Rightarrow> []
         | b2 # r2 \<Rightarrow>
             if \<not> is_continuation b2 \<or> (if b2 < 0x90 then b = 0xF0 else b = 0xF4)
             then decode_utf8_ignore (b2 # r2)
             else (case r2 of
                     [] \<Rightarrow> []
                   | b3 # r3 \<Rightarrow>
                       if \<not> is_continuation b3 then decode_utf8_ignore (b3 # r3)
                       else (case r3 of
                               [] \<Rightarrow> []
                             | b4 # r \<Rightarrow>
                                 if is_continuation b4
                                 then (unat (b AND 0x07) * 262144 + low6 b2 * 4096
                                         + low6 b3 * 64 + low6 b4) # decode_utf8_ignore r
                                 else decode_utf8_ignore (b4 # r))))
      else decode_utf8_ignore bs)"

definition PASSWORD_MAX_BYTES :: nat where
  "PASSWORD_MAX_BYTES = 72"

text \<open>
  The loop of both password functions:
  \<^verbatim>\<open>while truncated and (truncated[-1] & 0x80) and not (truncated[-1] & 0x40):
      truncated = truncated[:-1]\<close>
\<close>

function strip_incomplete :: "byte list \<Rightarrow> byte list" where
  "strip_incomplete truncated =
     (if truncated \<noteq> [] \<and> last truncated AND 0x80 \<noteq> 0 \<and> last truncated AND 0x40 = 0
      then strip_incomplete (butlast truncated)
      else truncated)"
  by pat_completeness auto
termination
  by (relation "measure length") auto

declare strip_incomplete.simps [simp del]

text \<open>
  The password-hashing library (passlib's \<open>CryptContext\<close>) is an external collaborator:
  \<open>ctx_hash\<close> takes the salt it draws and the password, \<open>ctx_verify\<close> a password and a
  hash; either may raise.
\<close>

record 's CryptContext =
  ctx_hash :: "'s \<Rightarrow> unicode \<Rightarrow> exn + unicode"
  ctx_verify :: "unicode \<Rightarrow> unicode \<Rightarrow> exn + bool"

definition verify_password :: "'s CryptContext \<Rightarrow> unicode \<Rightarrow> unicode \<Rightarrow> bool" where
  "verify_password pwd_context plain_password hashed_password =
     (case encode_utf8 plain_password of
        Inl e \<Rightarrow> False
      | Inr password_bytes \<Rightarrow>
          let plain_password' =
                (if length password_bytes > PASSWORD_MAX_BYTES
                 then decode_utf8_ignore
                        (strip_incomplete (take PASSWORD_MAX_BYTES password_bytes))
                 else plain_password)
          in (case ctx_verify pwd_context plain_password' hashed_password of
                Inl e \<Rightarrow> False
              | Inr is_valid \<Rightarrow> is_valid))"

definition get_password_hash :: "'s CryptContext \<Rightarrow> 's \<Rightarrow> unicode \<Rightarrow> exn + unicode" where
  "get_password_hash pwd_context salt password =
     (case encode_utf8 password of
        Inl e \<Rightarrow> Inl (ValueError (''Password hashing failed: '' @ str_exn e))
      | Inr password_bytes \<Rightarrow>
          let password' =
                (if length password_bytes > PASSWORD_MAX_BYTES
                 then decode_utf8_ignore
                        (strip_incomplete (take PASSWORD_MAX_BYTES password_bytes))
                 else password)
          in (case ctx_hash pwd_context salt password' of
                Inl e \<Rightarrow> Inl (ValueError (''Password hashing failed: '' @ str_exn e))
              | Inr hashed \<Rightarrow> Inr hashed))"

text \<open>The password that reaches the library, named for the statements below: the
  72-byte UTF-8-safe truncation of both functions.\<close>

definition truncate_password :: "unicode \<Rightarrow> exn + unicode" where
  "truncate_password p =
     (case encode_utf8 p of
        Inl e \<Rightarrow> Inl e
      | Inr bs \<Rightarrow>
          Inr (if length bs > PASSWORD_MAX_BYTES
               then decode_utf8_ignore (strip_incomplete (take PASSWORD_MAX_BYTES bs))
               else p))"

text \<open>A library that keeps the password itself as its hash: it verifies exactly the
  password that was hashed.\<close>

definition exact_context :: "unit CryptContext" where
  "exact_context = \<lparr>ctx_hash = (\<lambda>s p. Inr p), ctx_verify = (\<lambda>p h. Inr (p = h))\<rparr>"

section \<open>Accounts (core/models.py, core/db.py)\<close>

datatype UserRole = ADMIN | RECRUITER | CONSULTANT

text \<open>The model \<open>User\<close>: every field is required.\<close>

record User =
  user_id :: string
  user_email :: string
  user_name :: string
  user_role :: UserRole
  user_is_active :: bool
  user_hashed_password :: unicode
  user_created_at :: nat
  user_updated_at :: nat

text \<open>
  A document of the collections \<open>recruiters\<close>, \<open>consultants\<close>, \<open>admins\<close> and \<open>users\<close>.
  The code reads \<open>email\<close>, \<open>name\<close> and \<open>phone\<close> with \<open>dict.get\<close>, so they may be
  absent; \<open>acc_oid\<close> is the key \<open>_id\<close>, as the string \<open>str(_id)\<close>.
\<close>

record account_doc =
  acc_oid :: string
  acc_email :: "string option"
  acc_name :: "string option"
  acc_role :: UserRole
  acc_is_active :: bool
  acc_hashed_password :: unicode
  acc_phone :: "string option"
  acc_created_at :: nat
  acc_updated_at :: nat

text \<open>\<open>str.isspace\<close> on a code point, and the test \<open>not v or not v.strip()\<close> on a
  string and on a list of code points.\<close>

definition py_isspace :: "nat \<Rightarrow> bool" where
  "py_isspace n =
     ((9 \<le> n \<and> n \<le> 13) \<or> (28 \<le> n \<and> n \<le> 32) \<or> n = 133 \<or> n = 160 \<or> n = 5760
      \<or> (8192 \<le> n \<and> n \<le> 8202) \<or> n = 8232 \<or> n = 8233 \<or> n = 8239 \<or> n = 8287
      \<or> n = 12288)"

definition blank :: "string \<Rightarrow> bool" where
  "blank v = list_all (\<lambda>c. py_isspace (of_char c)) v"

definition blank_unicode :: "unicode \<Rightarrow> bool" where
  "blank_unicode v = list_all py_isspace v"

text \<open>
  \<open>User(**user_data)\<close>: the field constraints of \<open>UserBase\<close> and the validator
  \<open>validate_id\<close>. The e-mail syntax check of \<open>EmailStr\<close> belongs to an external
  library and is the parameter \<open>EmailStr\<close>.
\<close>

definition User_init :: "(string \<Rightarrow> bool) \<Rightarrow> account_doc \<Rightarrow> exn + User" where
  "User_init EmailStr user_data =
     (case acc_email user_data of
        None \<Rightarrow> Inl (ValidationError ''email: field required'')
      | Some e \<Rightarrow>
          (case acc_name user_data of
             None \<Rightarrow> Inl (ValidationError ''name: field required'')
           | Some n \<Rightarrow>
               if EmailStr e \<and> 1 \<le> length n \<and> length n \<le> 100
               then if blank (acc_oid user_data)
                    then Inl (ValidationError ''User ID is required'')
                    else Inr \<lparr>user_id = acc_oid user_data, user_email = e, user_name = n,
                              user_role = acc_role user_data,
                              user_is_active = acc_is_active user_data,
                              user_hashed_password = acc_hashed_password user_data,
                              user_created_at = acc_created_at user_data,
                              user_updated_at = acc_updated_at user_data\<rparr>
               else Inl (ValidationError ''value is not a valid user'')))"

section \<open>Jobs, submissions and profiles: the documents and the models\<close>

datatype JobType = CONTRACT | FULL_TIME | C2C | W2

record JobDescriptionBase =
  title :: string
  description :: string
  client_name :: "string option"
  experience_required :: rat
  tech_required :: "string list"
  location :: "string option"
  visa_required :: "string option"
  start_date :: "nat option"
  job_type :: "JobType option"
  jd_summary :: "string option"
  additional_notes :: "string option"
  jd_file_url :: "string option"
  legacy_notes :: "string option"
  status :: string

record JobDescriptionUpdate =
  upd_title :: "string option"
  upd_description :: "string option"
  upd_client_name :: "string option"
  upd_experience_required :: "rat option"
  upd_tech_required :: "string list option"
  upd_location :: "string option"
  upd_visa_required :: "string option"
  upd_start_date :: "nat option"
  upd_job_type :: "JobType option"
  upd_jd_summary :: "string option"
  upd_additional_notes :: "string option"
  upd_jd_file_url :: "string option"
  upd_notes :: "string option"
  upd_status :: "string option"

text \<open>The model \<open>JobDescription(JobDescriptionBase)\<close>.\<close>

record JobDescription =
  job_id :: string
  job_recruiter_id :: string
  job_base :: JobDescriptionBase
  job_created_at :: nat
  job_updated_at :: nat
  recruiter_name :: "string option"
  recruiter_email :: "string option"

text \<open>
  A document of \<open>job_descriptions\<close>, as the dictionary the code handles: \<open>doc_oid\<close> is
  \<open>_id\<close>; \<open>recruiter_id\<close> is read with \<open>dict.get\<close>; the keys \<open>id\<close>, \<open>recruiter_name\<close> and
  \<open>recruiter_email\<close> are absent in the store and set by the read path.
\<close>

record job_doc =
  doc_oid :: string
  doc_id :: "string option"
  doc_recruiter_id :: "string option"
  doc_base :: JobDescriptionBase
  doc_created_at :: nat
  doc_updated_at :: nat
  doc_recruiter_name :: "string option"
  doc_recruiter_email :: "string option"

datatype SubmissionStatus =
  SUBMITTED | INTERVIEW | OFFER | JOINED | REJECTED | ON_HOLD | WITHDRAWN

record SubmissionUpdate =
  su_status :: "SubmissionStatus option"
  su_comments :: "string option"
  su_recruiter_read :: "bool option"

text \<open>A document of \<open>submissions\<close>.\<close>

record submission_doc =
  sub_oid :: string
  sub_jd_id :: string
  sub_comments :: "string option"
  sub_consultant_id :: string
  sub_recruiter_id :: string
  sub_resume_path :: string
  sub_status :: SubmissionStatus
  sub_recruiter_read :: bool
  sub_created_at :: nat
  sub_updated_at :: nat

text \<open>The model \<open>Submission(SubmissionBase)\<close>; the joined fields are optional.\<close>

record Submission =
  s_id :: string
  s_jd_id :: string
  s_comments :: "string option"
  s_consultant_id :: string
  s_recruiter_id :: string
  s_resume_path :: string
  s_status :: SubmissionStatus
  s_recruiter_read :: bool
  s_created_at :: nat
  s_updated_at :: nat
  s_consultant_name :: "string option"
  s_consultant_email :: "string option"
  s_jd_title :: "string option"
  s_jd_location :: "string option"
  s_jd_experience_required :: "rat option"
  s_jd_tech_required :: "string list option"
  s_jd_description :: "string option"
  s_jd_recruiter_name :: "string option"
  s_jd_recruiter_email :: "string option"

text \<open>
  The fields of a consultant profile that no function of the repository reads one by
  one: \<open>ConsultantProfileUpdate\<close> carries them all as optional, a stored document may
  lack any of them, and the model \<open>ConsultantProfile\<close> fills the defaults of
  \<open>available\<close> and \<open>certifications\<close>.
\<close>

record profile_fields =
  available :: "bool option"
  pf_location :: "string option"
  visa_status :: "string option"
  pf_notes :: "string option"
  professional_summary :: "string option"
  linkedin_url :: "string option"
  github_url :: "string option"
  portfolio_url :: "string option"
  education :: "(string \<times> string) list option"
  certifications :: "string list option"
  pf_resume_path :: "string option"
  tech_stack_proficiency :: "(string \<times> string) list option"

record ConsultantProfileUpdate =
  cpu_experience_years :: "rat option"
  cpu_tech_stack :: "string list option"
  cpu_phone :: "string option"
  cpu_fields :: profile_fields

text \<open>A document of \<open>consultant_profiles\<close>, as the dictionary the code handles:
  \<open>id\<close>, \<open>user_id\<close>, \<open>name\<close> and \<open>email\<close> are set by the read path.\<close>

record profile_doc =
  prof_oid :: string
  prof_id :: "string option"
  prof_consultant_id :: "string option"
  prof_user_id :: "string option"
  prof_experience_years :: "rat option"
  prof_tech_stack :: "string list option"
  prof_rating :: "rat option"
  prof_phone :: "string option"
  prof_name :: "string option"
  prof_email :: "string option"
  prof_fields :: profile_fields
  prof_created_at :: "nat option"
  prof_updated_at :: "nat option"

text \<open>The model \<open>ConsultantProfile(ConsultantProfileBase)\<close>.\<close>

record ConsultantProfile =
  cp_id :: string
  cp_user_id :: string
  cp_experience_years :: rat
  cp_tech_stack :: "string list"
  cp_rating :: "rat option"
  cp_phone :: "string option"
  cp_name :: "string option"
  cp_email :: "string option"
  cp_fields :: profile_fields

section \<open>The application state\<close>

text \<open>
  The process-wide database handle (\<open>db.database\<close>, \<open>None\<close> until \<open>init_db\<close> has run),
  the collections, each a list of documents in insertion order, and the upload
  directory as a list of paths with their contents. The database driver and the file
  system are external collaborators: an operation on an initialised database succeeds.
\<close>

record app_state =
  db_initialized :: bool
  recruiters :: "account_doc list"
  consultants :: "account_doc list"
  admins :: "account_doc list"
  users :: "account_doc list"
  job_descriptions :: "job_doc list"
  submissions :: "submission_doc list"
  consultant_profiles :: "profile_doc list"
  uploads :: "(string \<times> string) list"

definition get_database :: "app_state \<Rightarrow> exn + unit" where
  "get_database st =
     (if db_initialized st then Inr ()
      else Inl (ValueError ''Database not initialized. Call init_db() first.''))"

text \<open>
  \<open>bson.ObjectId(s)\<close> of a string: 24 hexadecimal digits, else \<open>InvalidId\<close>. The
  identifier is kept in the form \<open>str\<close> gives it back, in lower case.
\<close>

definition is_hex_digit :: "char \<Rightarrow> bool" where
  "is_hex_digit c =
     (let n = of_char c :: nat
      in (48 \<le> n \<and> n \<le> 57) \<or> (65 \<le> n \<and> n \<le> 70) \<or> (97 \<le> n \<and> n \<le> 102))"

definition lower_hex :: "char \<Rightarrow> char" where
  "lower_hex c =
     (let n = of_char c :: nat in if 65 \<le> n \<and> n \<le> 70 then char_of (n + 32) else c)"

definition ObjectId :: "string \<Rightarrow> exn + string" where
  "ObjectId s =
     (if length s = 24 \<and> list_all is_hex_digit s then Inr (map lower_hex s)
      else Inl (InvalidId s))"

text \<open>\<open>collection.find_one(query)\<close>: the first document that matches.\<close>

definition find_one :: "('a \<Rightarrow> bool) \<Rightarrow> 'a list \<Rightarrow> 'a option" where
  "find_one query coll = find query coll"

text \<open>\<open>collection.update_one(query, {"$set": ...})\<close>: the first document that matches
  is changed, the others are kept.\<close>

fun update_one :: "('a \<Rightarrow> bool) \<Rightarrow> ('a \<Rightarrow> 'a) \<Rightarrow> 'a list \<Rightarrow> 'a list" where
  "update_one query upd [] = []"
| "update_one query upd (d # ds) =
     (if query d then upd d # ds else d # update_one query upd ds)"

section \<open>Authentication and role gates (core/auth.py)\<close>

definition get_user_by_email :: "(string \<Rightarrow> bool) \<Rightarrow> app_state \<Rightarrow> string \<Rightarrow> User option" where
  "get_user_by_email EmailStr st email =
     (if blank email then None
      else
        (case get_database st of
           Inl e \<Rightarrow> None
         | Inr db \<Rightarrow>
             let user_data =
                   (case find_one (\<lambda>d. acc_email d = Some email) (recruiters st) of
                      Some d \<Rightarrow> Some d
                    | None \<Rightarrow>
                        (case find_one (\<lambda>d. acc_email d = Some email) (consultants st) of
                           Some d \<Rightarrow> Some d
                         | None \<Rightarrow> find_one (\<lambda>d. acc_email d = Some email) (admins st)))
             in (case user_data of
                   None \<Rightarrow> None
                 | Some d \<Rightarrow>
                     (case User_init EmailStr d of Inl e \<Rightarrow> None | Inr user \<Rightarrow> Some user))))"

definition authenticate_user ::
  "(string \<Rightarrow> bool) \<Rightarrow> 's CryptContext \<Rightarrow> app_state \<Rightarrow> string \<Rightarrow> unicode \<Rightarrow> User option" where
  "authenticate_user EmailStr pwd_context st email password =
     (case get_user_by_email EmailStr st email of
        None \<Rightarrow> None
      | Some user \<Rightarrow>
          if \<not> verify_password pwd_context password (user_hashed_password user) then None
          else Some user)"

definition require_role :: "UserRole \<Rightarrow> User \<Rightarrow> exn + User" where
  "require_role required_role current_user =
     (if user_role current_user \<noteq> required_role \<and> user_role current_user \<noteq> ADMIN
      then Inl (HTTPException 403 ''Not enough permissions'')
      else Inr current_user)"

definition require_recruiter_or_admin :: "User \<Rightarrow> exn + User" where
  "require_recruiter_or_admin current_user =
     (if user_role current_user \<notin> set [RECRUITER, ADMIN]
      then Inl (HTTPException 403 ''Recruiter or admin access required'')
      else Inr current_user)"

section \<open>Account creation and login models (core/models.py, modules/auth)\<close>

record UserCreate =
  uc_email :: string
  uc_name :: string
  uc_role :: UserRole
  uc_is_active :: bool
  uc_password :: unicode

record UserLogin =
  ul_email :: string
  ul_password :: unicode

record UserResponse =
  ur_id :: string
  ur_email :: string
  ur_name :: string
  ur_role :: UserRole
  ur_is_active :: bool
  ur_created_at :: nat
  ur_updated_at :: nat

text \<open>The validator of \<open>UserCreate.password\<close>. \<open>UnicodeEncodeError\<close> is a
  \<open>ValueError\<close>: the first handler re-raises it.\<close>

definition validate_password_length :: "unicode \<Rightarrow> exn + unicode" where
  "validate_password_length v =
     (if v = [] then Inl (ValueError ''Password is required'')
      else
        (case encode_utf8 v of
           Inl e \<Rightarrow> Inl e
         | Inr password_bytes \<Rightarrow>
             let byte_count = length password_bytes
             in if byte_count > 72 then Inl (ValueError ''Password is too long'')
                else if length v < 6
                then Inl (ValueError ''Password must be at least 6 characters'')
                else Inr v))"

text \<open>\<open>UserCreate(**data)\<close>: the field constraints (\<open>EmailStr\<close>, the length of \<open>name\<close>,
  \<open>min_length=6\<close> of \<open>password\<close>), then the validator.\<close>

definition UserCreate_init :: "(string \<Rightarrow> bool) \<Rightarrow> UserCreate \<Rightarrow> exn + UserCreate" where
  "UserCreate_init EmailStr data =
     (if \<not> EmailStr (uc_email data) then Inl (ValidationError ''email: not a valid address'')
      else if length (uc_name data) < 1 \<or> 100 < length (uc_name data)
      then Inl (ValidationError ''name: length out of range'')
      else if length (uc_password data) < 6
      then Inl (ValidationError ''password: at least 6 characters'')
      else
        (case validate_password_length (uc_password data) of
           Inl e \<Rightarrow> Inl (ValidationError (str_exn e))
         | Inr v \<Rightarrow> Inr data))"

text \<open>The validator of \<open>UserLogin.password\<close> only asks for a password that is not
  blank.\<close>

definition validate_password_present :: "unicode \<Rightarrow> exn + unicode" where
  "validate_password_present v =
     (if blank_unicode v then Inl (ValueError ''Password is required'') else Inr v)"

definition UserLogin_init :: "(string \<Rightarrow> bool) \<Rightarrow> UserLogin \<Rightarrow> exn + UserLogin" where
  "UserLogin_init EmailStr data =
     (if \<not> EmailStr (ul_email data) then Inl (ValidationError ''email: not a valid address'')
      else
        (case validate_password_present (ul_password data) of
           Inl e \<Rightarrow> Inl (ValidationError (str_exn e))
         | Inr v \<Rightarrow> Inr data))"

text \<open>
  \<open>RecruiterRepository.create\<close>, \<open>ConsultantUserRepository.create\<close> and
  \<open>AdminRepository.create\<close> are the same function up to the collection written and the
  role stored (always the collection's own); \<open>AuthRepository.create_user\<close> picks one by
  \<open>user_data.role\<close>. \<open>new_oid\<close> is the identifier the driver gives the inserted document
  and \<open>now\<close> the clock.
\<close>

definition insert_account :: "UserRole \<Rightarrow> account_doc \<Rightarrow> app_state \<Rightarrow> app_state" where
  "insert_account role doc st =
     (case role of
        RECRUITER \<Rightarrow> st\<lparr>recruiters := recruiters st @ [doc]\<rparr>
      | CONSULTANT \<Rightarrow> st\<lparr>consultants := consultants st @ [doc]\<rparr>
      | ADMIN \<Rightarrow> st\<lparr>admins := admins st @ [doc]\<rparr>)"

definition UserRepository_create ::
  "UserRole \<Rightarrow> (string \<Rightarrow> bool) \<Rightarrow> 's CryptContext \<Rightarrow> 's \<Rightarrow> string \<Rightarrow> nat \<Rightarrow> app_state
     \<Rightarrow> UserCreate \<Rightarrow> app_state \<times> (exn + User)" where
  "UserRepository_create role EmailStr pwd_context salt new_oid now st user_data =
     (case get_database st of
        Inl e \<Rightarrow> (st, Inl e)
      | Inr db \<Rightarrow>
          if find_one (\<lambda>d. acc_email d = Some (uc_email user_data)) (recruiters st) \<noteq> None
             \<or> find_one (\<lambda>d. acc_email d = Some (uc_email user_data)) (consultants st) \<noteq> None
             \<or> find_one (\<lambda>d. acc_email d = Some (uc_email user_data)) (admins st) \<noteq> None
          then (st, Inl (ValueError ''Email already exists''))
          else
            (case encode_utf8 (uc_password user_data) of
               Inl e \<Rightarrow> (st, Inl e)
             | Inr password_bytes \<Rightarrow>
                 (case get_password_hash pwd_context salt (uc_password user_data) of
                    Inl e \<Rightarrow> (st, Inl e)
                  | Inr hashed_password \<Rightarrow>
                      let doc = \<lparr>acc_oid = new_oid, acc_email = Some (uc_email user_data),
                                 acc_name = Some (uc_name user_data), acc_role = role,
                                 acc_is_active = uc_is_active user_data,
                                 acc_hashed_password = hashed_password, acc_phone = None,
                                 acc_created_at = now, acc_updated_at = now\<rparr>;
                          st1 = insert_account role doc st;
                          st2 = st1\<lparr>users := users st1 @ [doc]\<rparr>
                      in (st2, User_init EmailStr doc))))"

definition AuthRepository_create_user ::
  "(string \<Rightarrow> bool) \<Rightarrow> 's CryptContext \<Rightarrow> 's \<Rightarrow> string \<Rightarrow> nat \<Rightarrow> app_state
     \<Rightarrow> UserCreate \<Rightarrow> app_state \<times> (exn + User)" where
  "AuthRepository_create_user EmailStr pwd_context salt new_oid now st user_data =
     UserRepository_create (uc_role user_data) EmailStr pwd_context salt new_oid now st user_data"

definition UserResponse_of :: "User \<Rightarrow> UserResponse" where
  "UserResponse_of user =
     \<lparr>ur_id = user_id user, ur_email = user_email user, ur_name = user_name user,
      ur_role = user_role user, ur_is_active = user_is_active user,
      ur_created_at = user_created_at user, ur_updated_at = user_updated_at user\<rparr>"

text \<open>\<open>POST /auth/register\<close>. The framework builds \<open>user_data: UserCreate\<close> from the
  request body before the endpoint's body runs.\<close>

definition register ::
  "(string \<Rightarrow> bool) \<Rightarrow> 's CryptContext \<Rightarrow> 's \<Rightarrow> string \<Rightarrow> nat \<Rightarrow> app_state
     \<Rightarrow> UserCreate \<Rightarrow> app_state \<times> (exn + UserResponse)" where
  "register EmailStr pwd_context salt new_oid now st body =
     (case UserCreate_init EmailStr body of
        Inl e \<Rightarrow> (st, Inl (RequestValidationError (str_exn e)))
      | Inr user_data \<Rightarrow>
          (case AuthRepository_create_user EmailStr pwd_context salt new_oid now st user_data of
             (st', Inl e) \<Rightarrow>
               (st', Inl (HTTPException 400
                            (if is_ValueError e then str_exn e
                             else ''Registration failed: '' @ str_exn e)))
           | (st', Inr user) \<Rightarrow> (st', Inr (UserResponse_of user))))"

text \<open>\<open>POST /auth/users\<close> (admin only).\<close>

definition create_user ::
  "(string \<Rightarrow> bool) \<Rightarrow> 's CryptContext \<Rightarrow> 's \<Rightarrow> string \<Rightarrow> nat \<Rightarrow> app_state
     \<Rightarrow> UserCreate \<Rightarrow> User \<Rightarrow> app_state \<times> (exn + UserResponse)" where
  "create_user EmailStr pwd_context salt new_oid now st body current_user =
     (case UserCreate_init EmailStr body of
        Inl e \<Rightarrow> (st, Inl (RequestValidationError (str_exn e)))
      | Inr user_data \<Rightarrow>
          if user_role current_user \<noteq> ADMIN
          then (st, Inl (HTTPException 403 ''Admin access required''))
          else
            (case AuthRepository_create_user EmailStr pwd_context salt new_oid now st user_data of
               (st', Inl e) \<Rightarrow>
                 (st', Inl (if is_ValueError e then HTTPException 400 (str_exn e)
                            else HTTPException 500 ''Failed to create user''))
             | (st', Inr user) \<Rightarrow> (st', Inr (UserResponse_of user))))"

section \<open>Jobs (modules/jobs)\<close>

text \<open>A loop that builds one model per document stops at the first exception.\<close>

fun collect :: "(exn + 'a) list \<Rightarrow> exn + 'a list" where
  "collect [] = Inr []"
| "collect (r # rs) =
     (case r of
        Inl e \<Rightarrow> Inl e
      | Inr v \<Rightarrow> (case collect rs of Inl e \<Rightarrow> Inl e | Inr vs \<Rightarrow> Inr (v # vs)))"

text \<open>\<open>cursor.skip(skip).limit(limit)\<close>: a limit of 0 is no limit.\<close>

definition skip_limit :: "nat \<Rightarrow> nat \<Rightarrow> 'a list \<Rightarrow> 'a list" where
  "skip_limit skip limit docs = (if limit = 0 then drop skip docs else take limit (drop skip docs))"

text \<open>\<open>str(x)\<close> of a value read with \<open>dict.get\<close>.\<close>

definition py_str :: "string option \<Rightarrow> string" where
  "py_str x = (case x of None \<Rightarrow> ''None'' | Some s \<Rightarrow> s)"

text \<open>
  \<open>JobRepository._merge_recruiter_data\<close>. Its outer handler (\<open>Error Loading Recruiter\<close>)
  answers a failure of the lookup itself, which an initialised database does not
  produce.
\<close>

definition merge_recruiter_data :: "app_state \<Rightarrow> job_doc \<Rightarrow> job_doc" where
  "merge_recruiter_data st jd_doc =
     (case doc_recruiter_id jd_doc of
        None \<Rightarrow> jd_doc\<lparr>doc_recruiter_name := Some ''Unknown Recruiter'',
                       doc_recruiter_email := Some ''N/A''\<rparr>
      | Some recruiter_id \<Rightarrow>
          if recruiter_id = []
          then jd_doc\<lparr>doc_recruiter_name := Some ''Unknown Recruiter'',
                      doc_recruiter_email := Some ''N/A''\<rparr>
          else
            (case ObjectId recruiter_id of
               Inl e \<Rightarrow> jd_doc\<lparr>doc_recruiter_name := Some ''Invalid ID'',
                              doc_recruiter_email := Some ''N/A''\<rparr>
             | Inr oid \<Rightarrow>
                 (case find_one (\<lambda>d. acc_oid d = oid) (recruiters st) of
                    Some user_data \<Rightarrow>
                      jd_doc\<lparr>doc_recruiter_name :=
                               Some (case acc_name user_data of None \<Rightarrow> ''Unknown'' | Some n \<Rightarrow> n),
                             doc_recruiter_email :=
                               Some (case acc_email user_data of None \<Rightarrow> [] | Some e \<Rightarrow> e)\<rparr>
                  | None \<Rightarrow> jd_doc\<lparr>doc_recruiter_name := Some ''Unknown Recruiter'',
                                   doc_recruiter_email := Some ''N/A''\<rparr>)))"

text \<open>\<open>JobDescription(**doc)\<close>: \<open>id\<close> and \<open>recruiter_id\<close> are required strings, \<open>title\<close>
  has \<open>min_length=1\<close> and \<open>experience_required\<close> has \<open>ge=0\<close>.\<close>

definition JobDescription_init :: "job_doc \<Rightarrow> exn + JobDescription" where
  "JobDescription_init doc =
     (case doc_id doc of
        None \<Rightarrow> Inl (ValidationError ''id: field required'')
      | Some i \<Rightarrow>
          (case doc_recruiter_id doc of
             None \<Rightarrow> Inl (ValidationError ''recruiter_id: field required'')
           | Some r \<Rightarrow>
               if length (title (doc_base doc)) < 1
               then Inl (ValidationError ''title: at least 1 character'')
               else if experience_required (doc_base doc) < 0
               then Inl (ValidationError ''experience_required: greater than or equal to 0'')
               else Inr \<lparr>job_id = i, job_recruiter_id = r, job_base = doc_base doc,
                         job_created_at = doc_created_at doc,
                         job_updated_at = doc_updated_at doc,
                         recruiter_name = doc_recruiter_name doc,
                         recruiter_email = doc_recruiter_email doc\<rparr>))"

definition JobRepository_get_all ::
  "app_state \<Rightarrow> nat \<Rightarrow> nat \<Rightarrow> string option \<Rightarrow> exn + JobDescription list" where
  "JobRepository_get_all st skip limit status_filter =
     (case get_database st of
        Inl e \<Rightarrow> Inl e
      | Inr db \<Rightarrow>
          let query = (case status_filter of
                         None \<Rightarrow> (\<lambda>d. True)
                       | Some s \<Rightarrow> if s = [] then (\<lambda>d. True)
                                  else (\<lambda>d. status (doc_base d) = s));
              cursor = skip_limit skip limit (filter query (job_descriptions st))
          in collect
               (map (\<lambda>doc. JobDescription_init
                             (merge_recruiter_data st (doc\<lparr>doc_id := Some (doc_oid doc)\<rparr>)))
                    cursor))"

definition JobRepository_get_by_id :: "app_state \<Rightarrow> string \<Rightarrow> exn + JobDescription option" where
  "JobRepository_get_by_id st jd_id =
     (case get_database st of
        Inl e \<Rightarrow> Inl e
      | Inr db \<Rightarrow>
          (case ObjectId jd_id of
             Inl e \<Rightarrow> Inl e
           | Inr oid \<Rightarrow>
               (case find_one (\<lambda>d. doc_oid d = oid) (job_descriptions st) of
                  Some doc \<Rightarrow>
                    (case JobDescription_init
                            (merge_recruiter_data st (doc\<lparr>doc_id := Some (doc_oid doc)\<rparr>)) of
                       Inl e \<Rightarrow> Inl e
                     | Inr jd \<Rightarrow> Inr (Some jd))
                | None \<Rightarrow> Inr None)))"

text \<open>\<open>{"$set": update_data}\<close> with
  \<open>update_data = {k: v for k, v in jd_data.dict().items() if v is not None}\<close> and
  \<open>updated_at\<close>.\<close>

definition set_or_keep :: "'a option \<Rightarrow> 'a \<Rightarrow> 'a" where
  "set_or_keep new old = (case new of None \<Rightarrow> old | Some v \<Rightarrow> v)"

definition set_or_keep_opt :: "'a option \<Rightarrow> 'a option \<Rightarrow> 'a option" where
  "set_or_keep_opt new old = (case new of None \<Rightarrow> old | Some v \<Rightarrow> Some v)"

definition set_job_fields :: "JobDescriptionUpdate \<Rightarrow> nat \<Rightarrow> job_doc \<Rightarrow> job_doc" where
  "set_job_fields jd_data now doc =
     doc\<lparr>doc_base :=
           \<lparr>title = set_or_keep (upd_title jd_data) (title (doc_base doc)),
            description = set_or_keep (upd_description jd_data) (description (doc_base doc)),
            client_name = set_or_keep_opt (upd_client_name jd_data) (client_name (doc_base doc)),
            experience_required =
              set_or_keep (upd_experience_required jd_data) (experience_required (doc_base doc)),
            tech_required = set_or_keep (upd_tech_required jd_data) (tech_required (doc_base doc)),
            location = set_or_keep_opt (upd_location jd_data) (location (doc_base doc)),
            visa_required =
              set_or_keep_opt (upd_visa_required jd_data) (visa_required (doc_base doc)),
            start_date = set_or_keep_opt (upd_start_date jd_data) (start_date (doc_base doc)),
            job_type = set_or_keep_opt (upd_job_type jd_data) (job_type (doc_base doc)),
            jd_summary = set_or_keep_opt (upd_jd_summary jd_data) (jd_summary (doc_base doc)),
            additional_notes =
              set_or_keep_opt (upd_additional_notes jd_data) (additional_notes (doc_base doc)),
            jd_file_url = set_or_keep_opt (upd_jd_file_url jd_data) (jd_file_url (doc_base doc)),
            legacy_notes = set_or_keep_opt (upd_notes jd_data) (legacy_notes (doc_base doc)),
            status = set_or_keep (upd_status jd_data) (status (doc_base doc))\<rparr>,
         doc_updated_at := now\<rparr>"

definition JobRepository_update ::
  "app_state \<Rightarrow> nat \<Rightarrow> string \<Rightarrow> JobDescriptionUpdate \<Rightarrow> string
     \<Rightarrow> app_state \<times> (exn + JobDescription option)" where
  "JobRepository_update st now jd_id jd_data recruiter_id =
     (case get_database st of
        Inl e \<Rightarrow> (st, Inl e)
      | Inr db \<Rightarrow>
          (case ObjectId jd_id of
             Inl e \<Rightarrow> (st, Inl e)
           | Inr oid \<Rightarrow>
               (case find_one (\<lambda>d. doc_oid d = oid) (job_descriptions st) of
                  None \<Rightarrow> (st, Inr None)
                | Some jd \<Rightarrow>
                    if py_str (doc_recruiter_id jd) \<noteq> recruiter_id
                    then (st, Inl (ValueError ''Unauthorized: You can only update your own jobs''))
                    else
                      let st' = st\<lparr>job_descriptions :=
                                     update_one (\<lambda>d. doc_oid d = oid)
                                       (set_job_fields jd_data now) (job_descriptions st)\<rparr>
                      in (st', JobRepository_get_by_id st' jd_id))))"

text \<open>\<open>GET /jobs/\<close>.\<close>

definition get_jobs :: "app_state \<Rightarrow> string option \<Rightarrow> User \<Rightarrow> exn + JobDescription list" where
  "get_jobs st status_param current_user =
     (if user_role current_user = CONSULTANT
      then JobRepository_get_all st 0 100 (Some ''OPEN'')
      else JobRepository_get_all st 0 100 status_param)"

text \<open>\<open>GET /jobs/{jd_id}\<close>.\<close>

definition get_job :: "app_state \<Rightarrow> string \<Rightarrow> User \<Rightarrow> exn + JobDescription" where
  "get_job st jd_id current_user =
     (case JobRepository_get_by_id st jd_id of
        Inl e \<Rightarrow> Inl e
      | Inr None \<Rightarrow> Inl (HTTPException 404 ''Job not found'')
      | Inr (Some jd) \<Rightarrow> Inr jd)"

text \<open>\<open>PUT /jobs/{jd_id}\<close>: the role gate is a dependency of the endpoint; its body
  turns a \<open>ValueError\<close> of the repository into status 403.\<close>

definition update_job ::
  "app_state \<Rightarrow> nat \<Rightarrow> string \<Rightarrow> JobDescriptionUpdate \<Rightarrow> User
     \<Rightarrow> app_state \<times> (exn + JobDescription)" where
  "update_job st now jd_id jd_data user =
     (case require_recruiter_or_admin user of
        Inl e \<Rightarrow> (st, Inl e)
      | Inr current_user \<Rightarrow>
          (case JobRepository_update st now jd_id jd_data (user_id current_user) of
             (st', Inl e) \<Rightarrow>
               if is_ValueError e then (st', Inl (HTTPException 403 (str_exn e)))
               else (st', Inl e)
           | (st', Inr None) \<Rightarrow> (st', Inl (HTTPException 404 ''Job not found or unauthorized''))
           | (st', Inr (Some updated_jd)) \<Rightarrow> (st', Inr updated_jd)))"

section \<open>Consultant profiles (modules/consultants/repository.py)\<close>

text \<open>
  \<open>ConsultantRepository._merge_user_data\<close>. A document that lacks \<open>tech_stack\<close> or
  \<open>experience_years\<close> gets the defaults first. Its outer handler (\<open>Error Loading User\<close>)
  answers a failure of the lookup itself, which an initialised database does not
  produce.
\<close>

definition merge_user_data :: "app_state \<Rightarrow> profile_doc \<Rightarrow> profile_doc" where
  "merge_user_data st profile_doc0 =
     (let profile_doc =
            profile_doc0\<lparr>prof_tech_stack :=
                            (case prof_tech_stack profile_doc0 of
                               None \<Rightarrow> Some [] | Some ts \<Rightarrow> Some ts),
                          prof_experience_years :=
                            (case prof_experience_years profile_doc0 of
                               None \<Rightarrow> Some 0 | Some y \<Rightarrow> Some y)\<rparr>
      in (case prof_consultant_id profile_doc of
            None \<Rightarrow> profile_doc\<lparr>prof_name := Some ''Unknown User'', prof_email := Some ''N/A''\<rparr>
          | Some consultant_id \<Rightarrow>
              if consultant_id = []
              then profile_doc\<lparr>prof_name := Some ''Unknown User'', prof_email := Some ''N/A''\<rparr>
              else
                (case ObjectId consultant_id of
                   Inl e \<Rightarrow> profile_doc\<lparr>prof_name := Some ''Invalid ID''\<rparr>
                 | Inr oid \<Rightarrow>
                     (case find_one (\<lambda>d. acc_oid d = oid) (consultants st) of
                        Some user_data \<Rightarrow>
                          profile_doc
                            \<lparr>prof_email :=
                               Some (case acc_email user_data of None \<Rightarrow> [] | Some e \<Rightarrow> e),
                             prof_name :=
                               Some (case acc_name user_data of None \<Rightarrow> ''Unknown'' | Some n \<Rightarrow> n),
                             prof_phone :=
                               Some (case acc_phone user_data of None \<Rightarrow> [] | Some ph \<Rightarrow> ph)\<rparr>
                      | None \<Rightarrow>
                          profile_doc\<lparr>prof_name := Some ''Unknown User'',
                                       prof_email := Some ''N/A''\<rparr>))))"

text \<open>\<open>ConsultantProfile(**doc)\<close>: \<open>id\<close>, \<open>user_id\<close> and \<open>experience_years\<close> (\<open>ge=0\<close>)
  are required; \<open>tech_stack\<close>, \<open>available\<close> and \<open>certifications\<close> have defaults.\<close>

definition ConsultantProfile_init :: "profile_doc \<Rightarrow> exn + ConsultantProfile" where
  "ConsultantProfile_init doc =
     (case prof_id doc of
        None \<Rightarrow> Inl (ValidationError ''id: field required'')
      | Some i \<Rightarrow>
          (case prof_user_id doc of
             None \<Rightarrow> Inl (ValidationError ''user_id: field required'')
           | Some u \<Rightarrow>
               (case prof_experience_years doc of
                  None \<Rightarrow> Inl (ValidationError ''experience_years: field required'')
                | Some y \<Rightarrow>
                    if y < 0
                    then Inl (ValidationError ''experience_years: greater than or equal to 0'')
                    else Inr \<lparr>cp_id = i, cp_user_id = u, cp_experience_years = y,
                              cp_tech_stack =
                                (case prof_tech_stack doc of None \<Rightarrow> [] | Some ts \<Rightarrow> ts),
                              cp_rating = prof_rating doc, cp_phone = prof_phone doc,
                              cp_name = prof_name doc, cp_email = prof_email doc,
                              cp_fields =
                                (prof_fields doc)
                                  \<lparr>available :=
                                     (case available (prof_fields doc) of
                                        None \<Rightarrow> Some True | Some a \<Rightarrow> Some a),
                                   certifications :=
                                     (case certifications (prof_fields doc) of
                                        None \<Rightarrow> Some [] | Some c \<Rightarrow> Some c)\<rparr>\<rparr>)))"

text \<open>The two lines of a profile read before the merge:
  \<open>doc["id"] = str(doc["_id"])\<close> and, when the key is there,
  \<open>doc["user_id"] = doc["consultant_id"]\<close>.\<close>

definition with_ids :: "profile_doc \<Rightarrow> profile_doc" where
  "with_ids doc =
     doc\<lparr>prof_id := Some (prof_oid doc),
         prof_user_id := (case prof_consultant_id doc of
                            None \<Rightarrow> prof_user_id doc
                          | Some c \<Rightarrow> Some c)\<rparr>"

definition ConsultantRepository_get_by_user_id ::
  "app_state \<Rightarrow> string \<Rightarrow> exn + ConsultantProfile option" where
  "ConsultantRepository_get_by_user_id st uid =
     (case get_database st of
        Inl e \<Rightarrow> Inl e
      | Inr db \<Rightarrow>
          (case find_one (\<lambda>d. prof_consultant_id d = Some uid) (consultant_profiles st) of
             Some profile_data \<Rightarrow>
               (case ConsultantProfile_init (merge_user_data st (with_ids profile_data)) of
                  Inl e \<Rightarrow> Inl e
                | Inr profile \<Rightarrow> Inr (Some profile))
           | None \<Rightarrow> Inr None))"


text \<open>\<open>{"$set": update_data}\<close> on a profile.\<close>

definition set_profile_fields :: "profile_fields \<Rightarrow> profile_fields \<Rightarrow> profile_fields" where
  "set_profile_fields new old =
     \<lparr>available = set_or_keep_opt (available new) (available old),
      pf_location = set_or_keep_opt (pf_location new) (pf_location old),
      visa_status = set_or_keep_opt (visa_status new) (visa_status old),
      pf_notes = set_or_keep_opt (pf_notes new) (pf_notes old),
      professional_summary =
        set_or_keep_opt (professional_summary new) (professional_summary old),
      linkedin_url = set_or_keep_opt (linkedin_url new) (linkedin_url old),
      github_url = set_or_keep_opt (github_url new) (github_url old),
      portfolio_url = set_or_keep_opt (portfolio_url new) (portfolio_url old),
      education = set_or_keep_opt (education new) (education old),
      certifications = set_or_keep_opt (certifications new) (certifications old),
      pf_resume_path = set_or_keep_opt (pf_resume_path new) (pf_resume_path old),
      tech_stack_proficiency =
        set_or_keep_opt (tech_stack_proficiency new) (tech_stack_proficiency old)\<rparr>"

definition set_profile :: "ConsultantProfileUpdate \<Rightarrow> nat \<Rightarrow> profile_doc \<Rightarrow> profile_doc" where
  "set_profile profile_data now doc =
     doc\<lparr>prof_experience_years :=
           set_or_keep_opt (cpu_experience_years profile_data) (prof_experience_years doc),
         prof_tech_stack := set_or_keep_opt (cpu_tech_stack profile_data) (prof_tech_stack doc),
         prof_fields := set_profile_fields (cpu_fields profile_data) (prof_fields doc),
         prof_updated_at := Some now\<rparr>"

text \<open>The document an upsert inserts: the query's \<open>consultant_id\<close>, the \<open>$setOnInsert\<close>
  defaults, then the \<open>$set\<close> fields.\<close>

definition empty_profile_fields :: profile_fields where
  "empty_profile_fields =
     \<lparr>available = None, pf_location = None, visa_status = None, pf_notes = None,
      professional_summary = None, linkedin_url = None, github_url = None,
      portfolio_url = None, education = None, certifications = None,
      pf_resume_path = None, tech_stack_proficiency = None\<rparr>"

definition new_profile :: "string \<Rightarrow> string \<Rightarrow> nat \<Rightarrow> profile_doc" where
  "new_profile new_oid uid now =
     \<lparr>prof_oid = new_oid, prof_id = None, prof_consultant_id = Some uid, prof_user_id = None,
      prof_experience_years = Some 0, prof_tech_stack = Some [], prof_rating = None,
      prof_phone = None, prof_name = None, prof_email = None,
      prof_fields = empty_profile_fields, prof_created_at = Some now,
      prof_updated_at = None\<rparr>"

text \<open>\<open>ConsultantRepository.create_or_update\<close>. A phone number goes to the account
  document, not to the profile; an identifier that is no ObjectId is logged and
  skipped there.\<close>

definition ConsultantRepository_create_or_update ::
  "app_state \<Rightarrow> nat \<Rightarrow> string \<Rightarrow> string \<Rightarrow> ConsultantProfileUpdate
     \<Rightarrow> app_state \<times> (exn + ConsultantProfile option)" where
  "ConsultantRepository_create_or_update st now new_oid uid profile_data =
     (case get_database st of
        Inl e \<Rightarrow> (st, Inl e)
      | Inr db \<Rightarrow>
          let st1 = (case cpu_phone profile_data of
                       None \<Rightarrow> st
                     | Some phone \<Rightarrow>
                         (case ObjectId uid of
                            Inl e \<Rightarrow> st
                          | Inr oid \<Rightarrow>
                              st\<lparr>consultants :=
                                   update_one (\<lambda>d. acc_oid d = oid)
                                     (\<lambda>d. d\<lparr>acc_phone := Some phone, acc_updated_at := now\<rparr>)
                                     (consultants st)\<rparr>));
              st2 = (case find_one (\<lambda>d. prof_consultant_id d = Some uid)
                            (consultant_profiles st1) of
                       Some existing \<Rightarrow>
                         st1\<lparr>consultant_profiles :=
                               update_one (\<lambda>d. prof_consultant_id d = Some uid)
                                 (set_profile profile_data now) (consultant_profiles st1)\<rparr>
                     | None \<Rightarrow>
                         st1\<lparr>consultant_profiles :=
                               consultant_profiles st1
                                 @ [set_profile profile_data now (new_profile new_oid uid now)]\<rparr>)
          in (st2, ConsultantRepository_get_by_user_id st2 uid))"

section \<open>Submissions (modules/submissions)\<close>

record SubmissionCreate =
  sc_jd_id :: string
  sc_comments :: "string option"

definition Submission_init :: "submission_doc \<Rightarrow> Submission" where
  "Submission_init doc =
     \<lparr>s_id = sub_oid doc, s_jd_id = sub_jd_id doc, s_comments = sub_comments doc,
      s_consultant_id = sub_consultant_id doc, s_recruiter_id = sub_recruiter_id doc,
      s_resume_path = sub_resume_path doc, s_status = sub_status doc,
      s_recruiter_read = sub_recruiter_read doc, s_created_at = sub_created_at doc,
      s_updated_at = sub_updated_at doc, s_consultant_name = None,
      s_consultant_email = None, s_jd_title = None, s_jd_location = None,
      s_jd_experience_required = None, s_jd_tech_required = None,
      s_jd_description = None, s_jd_recruiter_name = None, s_jd_recruiter_email = None\<rparr>"

definition SubmissionRepository_create ::
  "app_state \<Rightarrow> nat \<Rightarrow> string \<Rightarrow> SubmissionCreate \<Rightarrow> string \<Rightarrow> string \<Rightarrow> string
     \<Rightarrow> app_state \<times> (exn + Submission)" where
  "SubmissionRepository_create st now new_oid submission_data consultant_id recruiter_id
       resume_file_path =
     (case get_database st of
        Inl e \<Rightarrow> (st, Inl e)
      | Inr db \<Rightarrow>
          let doc = \<lparr>sub_oid = new_oid, sub_jd_id = sc_jd_id submission_data,
                     sub_comments = sc_comments submission_data,
                     sub_consultant_id = consultant_id, sub_recruiter_id = recruiter_id,
                     sub_resume_path = resume_file_path, sub_status = SUBMITTED,
                     sub_recruiter_read = False, sub_created_at = now,
                     sub_updated_at = now\<rparr>
          in (st\<lparr>submissions := submissions st @ [doc]\<rparr>, Inr (Submission_init doc)))"

definition SubmissionRepository_get_by_id :: "app_state \<Rightarrow> string \<Rightarrow> exn + Submission option" where
  "SubmissionRepository_get_by_id st submission_id =
     (case get_database st of
        Inl e \<Rightarrow> Inl e
      | Inr db \<Rightarrow>
          (case ObjectId submission_id of
             Inl e \<Rightarrow> Inl e
           | Inr oid \<Rightarrow>
               (case find_one (\<lambda>d. sub_oid d = oid) (submissions st) of
                  Some doc \<Rightarrow> Inr (Some (Submission_init doc))
                | None \<Rightarrow> Inr None)))"

text \<open>\<open>SubmissionRepository.update_status\<close>: the parameter \<open>recruiter_id\<close> is not
  read.\<close>

definition SubmissionRepository_update_status ::
  "app_state \<Rightarrow> nat \<Rightarrow> string \<Rightarrow> SubmissionStatus \<Rightarrow> string
     \<Rightarrow> app_state \<times> (exn + Submission option)" where
  "SubmissionRepository_update_status st now submission_id new_status recruiter_id =
     (case get_database st of
        Inl e \<Rightarrow> (st, Inl e)
      | Inr db \<Rightarrow>
          (case ObjectId submission_id of
             Inl e \<Rightarrow> (st, Inl e)
           | Inr oid \<Rightarrow>
               let st' = st\<lparr>submissions :=
                              update_one (\<lambda>d. sub_oid d = oid)
                                (\<lambda>d. d\<lparr>sub_status := new_status, sub_updated_at := now\<rparr>)
                                (submissions st)\<rparr>
               in (st', SubmissionRepository_get_by_id st' submission_id)))"

text \<open>\<open>os.path.splitext(p)[1]\<close>: from the last dot of the last path component,
  leading dots of the component apart.\<close>

definition splitext_ext :: "string \<Rightarrow> string" where
  "splitext_ext p =
     (let component = rev (takeWhile (\<lambda>c. c \<noteq> CHR ''/'') (rev p));
          name = dropWhile (\<lambda>c. c = CHR ''.'') component
      in if CHR ''.'' \<in> set name
         then CHR ''.'' # rev (takeWhile (\<lambda>c. c \<noteq> CHR ''.'') (rev name))
         else [])"

text \<open>\<open>open(file_path, "wb")\<close> and the copy: the file at the path holds the content.\<close>

definition write_file :: "string \<Rightarrow> string \<Rightarrow> (string \<times> string) list \<Rightarrow> (string \<times> string) list" where
  "write_file path content files = (path, content) # filter (\<lambda>f. fst f \<noteq> path) files"

text \<open>
  \<open>POST /submissions/\<close>. \<open>resume_filename\<close> and \<open>resume_content\<close> are the uploaded file,
  \<open>rnd\<close> is \<open>os.urandom(4).hex()\<close>, \<open>profile_oid\<close> and \<open>new_oid\<close> the identifiers the
  driver gives a profile and a submission it inserts. An exception of the profile step
  is logged and dropped; what that step wrote stays.
\<close>

definition create_submission ::
  "app_state \<Rightarrow> nat \<Rightarrow> string \<Rightarrow> string \<Rightarrow> string \<Rightarrow> string \<Rightarrow> string option \<Rightarrow> string
     \<Rightarrow> string \<Rightarrow> User \<Rightarrow> app_state \<times> (exn + Submission)" where
  "create_submission st now profile_oid new_oid rnd jd_id comments resume_filename
       resume_content user =
     (case require_role CONSULTANT user of
        Inl e \<Rightarrow> (st, Inl e)
      | Inr current_user \<Rightarrow>
          (case JobRepository_get_by_id st jd_id of
             Inl e \<Rightarrow> (st, Inl e)
           | Inr None \<Rightarrow> (st, Inl (HTTPException 404 ''Job not found''))
           | Inr (Some jd) \<Rightarrow>
               if status (job_base jd) \<noteq> ''OPEN''
               then (st, Inl (HTTPException 400 ''Job is not open for applications''))
               else
                 let st1 =
                       (case ConsultantRepository_get_by_user_id st (user_id current_user) of
                          Inl e \<Rightarrow> st
                        | Inr (Some profile) \<Rightarrow> st
                        | Inr None \<Rightarrow>
                            fst (ConsultantRepository_create_or_update st now profile_oid
                                   (user_id current_user)
                                   \<lparr>cpu_experience_years = Some 0, cpu_tech_stack = None,
                                    cpu_phone = None, cpu_fields = empty_profile_fields\<rparr>));
                     file_ext = splitext_ext resume_filename;
                     filename = user_id current_user @ ''_'' @ jd_id @ ''_'' @ rnd @ file_ext;
                     file_path = ''uploads/'' @ filename;
                     st2 = st1\<lparr>uploads := write_file file_path resume_content (uploads st1)\<rparr>;
                     submission_data = \<lparr>sc_jd_id = jd_id, sc_comments = comments\<rparr>
                 in (case SubmissionRepository_create st2 now new_oid submission_data
                            (user_id current_user) (job_recruiter_id jd) file_path of
                       (st3, Inl e) \<Rightarrow>
                         (st3, Inl (HTTPException 500
                                      (''Error processing submission: '' @ str_exn e)))
                     | (st3, Inr submission) \<Rightarrow> (st3, Inr submission))))"

text \<open>\<open>PUT /submissions/{submission_id}/status\<close>.\<close>

definition update_submission_status ::
  "app_state \<Rightarrow> nat \<Rightarrow> string \<Rightarrow> SubmissionUpdate \<Rightarrow> User
     \<Rightarrow> app_state \<times> (exn + Submission option)" where
  "update_submission_status st now submission_id status_body user =
     (case require_recruiter_or_admin user of
        Inl e \<Rightarrow> (st, Inl e)
      | Inr current_user \<Rightarrow>
          (case su_status status_body of
             None \<Rightarrow> (st, Inl (HTTPException 400 ''Status is required''))
           | Some new_status \<Rightarrow>
               (case SubmissionRepository_get_by_id st submission_id of
                  Inl e \<Rightarrow> (st, Inl e)
                | Inr None \<Rightarrow> (st, Inl (HTTPException 404 ''Submission not found''))
                | Inr (Some submission) \<Rightarrow>
                    SubmissionRepository_update_status st now submission_id new_status
                      (user_id current_user))))"

section \<open>The AI classification adapter (core/ai_service.py)\<close>

text \<open>
  What \<open>json.loads\<close> returns. An object is the list of its keys with their values, each
  key once; numbers are rationals (the parser's \<open>NaN\<close> and \<open>Infinity\<close> are left out).
\<close>

datatype json =
    JNull
  | JBool bool
  | JNum rat
  | JStr string
  | JList "json list"
  | JObject "(string \<times> json) list"

text \<open>Python's truth value of a parsed value, as \<open>x or None\<close> and \<open>if x\<close> read it.\<close>

fun truthy :: "json \<Rightarrow> bool" where
  "truthy JNull = False"
| "truthy (JBool b) = b"
| "truthy (JNum r) = (r \<noteq> 0)"
| "truthy (JStr s) = (s \<noteq> [])"
| "truthy (JList xs) = (xs \<noteq> [])"
| "truthy (JObject kvs) = (kvs \<noteq> [])"

definition or_None :: "json option \<Rightarrow> json" where
  "or_None x = (case x of None \<Rightarrow> JNull | Some v \<Rightarrow> if truthy v then v else JNull)"

definition py_strip :: "string \<Rightarrow> string" where
  "py_strip s =
     rev (dropWhile (\<lambda>c. py_isspace (of_char c)) (rev (dropWhile (\<lambda>c. py_isspace (of_char c)) s)))"

text \<open>\<open>s.replace("Z", "+00:00")\<close>.\<close>

definition replace_Z :: "string \<Rightarrow> string" where
  "replace_Z s = concat (map (\<lambda>c. if c = CHR ''Z'' then ''+00:00'' else [c]) s)"

definition startswith :: "string \<Rightarrow> string \<Rightarrow> bool" where
  "startswith s pre = (take (length pre) s = pre)"

definition endswith :: "string \<Rightarrow> string \<Rightarrow> bool" where
  "endswith s suf = (length suf \<le> length s \<and> drop (length s - length suf) s = suf)"

record 'f classified =
  c_title :: string
  c_client_name :: json
  c_experience_required :: 'f
  c_tech_required :: "json list"
  c_location :: json
  c_visa_required :: json
  c_start_date :: json
  c_job_type :: json
  c_jd_summary :: json
  c_additional_notes :: json
  c_description :: string

text \<open>
  The normalisation of \<open>classify_job_description\<close> (from \<open>result = {...}\<close> to
  \<open>return result\<close>), on the parsed value. The built-in \<open>float\<close> and
  \<open>datetime.fromisoformat\<close> are the parameters \<open>py_float\<close> (its result or its exception)
  and \<open>fromisoformat\<close> (whether the string parses). A value without the method the
  code calls on it raises \<open>AttributeError\<close>.
\<close>

definition normalize_classified ::
  "(json \<Rightarrow> exn + 'f) \<Rightarrow> (string \<Rightarrow> bool) \<Rightarrow> json \<Rightarrow> string \<Rightarrow> exn + 'f classified" where
  "normalize_classified py_float fromisoformat classified_data jd_text =
     (case classified_data of
        JObject kvs \<Rightarrow>
          (case (case map_of kvs ''title'' of
                   None \<Rightarrow> Inr (py_strip [])
                 | Some (JStr t) \<Rightarrow> Inr (py_strip t)
                 | Some other \<Rightarrow> Inl AttributeError) of
             Inl e \<Rightarrow> Inl e
           | Inr title0 \<Rightarrow>
               (case py_float (case map_of kvs ''experience_required'' of
                                 None \<Rightarrow> JNum 0 | Some v \<Rightarrow> v) of
                  Inl e \<Rightarrow> Inl e
                | Inr experience \<Rightarrow>
                    let tech0 = (case map_of kvs ''tech_required'' of
                                   None \<Rightarrow> JList [] | Some v \<Rightarrow> v);
                        start0 = or_None (map_of kvs ''start_date'')
                    in Inr \<lparr>c_title = (if title0 = [] then ''Untitled Position'' else title0),
                            c_client_name = or_None (map_of kvs ''client_name''),
                            c_experience_required = experience,
                            c_tech_required = (case tech0 of JList xs \<Rightarrow> xs | other \<Rightarrow> []),
                            c_location = or_None (map_of kvs ''location''),
                            c_visa_required = or_None (map_of kvs ''visa_required''),
                            c_start_date =
                              (if truthy start0
                               then (case start0 of
                                       JStr d \<Rightarrow> if fromisoformat (replace_Z d) then start0
                                                 else JNull
                                     | other \<Rightarrow> JNull)
                               else start0),
                            c_job_type = or_None (map_of kvs ''job_type''),
                            c_jd_summary = or_None (map_of kvs ''jd_summary''),
                            c_additional_notes = or_None (map_of kvs ''additional_notes''),
                            c_description = jd_text\<rparr>))
      | other \<Rightarrow> Inl AttributeError)"

text \<open>
  \<open>classify_job_description\<close>: \<open>api_key\<close> is \<open>settings.GEMINI_API_KEY\<close>, \<open>response_text\<close>
  the text the external service answered with, \<open>json_loads\<close> the parser (\<open>None\<close> for
  \<open>JSONDecodeError\<close>). Every exception below the key check leaves as a \<open>ValueError\<close>.
\<close>

definition classify_job_description ::
  "string \<Rightarrow> (string \<Rightarrow> json option) \<Rightarrow> (json \<Rightarrow> exn + 'f) \<Rightarrow> (string \<Rightarrow> bool) \<Rightarrow> string
     \<Rightarrow> string \<Rightarrow> exn + 'f classified" where
  "classify_job_description api_key json_loads py_float fromisoformat response jd_text =
     (if api_key = []
      then Inl (ValueError ''GEMINI_API_KEY is not configured. Please set it in environment variables.'')
      else
        let t0 = py_strip response;
            t1 = (if startswith t0 ''```json'' then drop 7 t0 else t0);
            t2 = (if startswith t1 ''```'' then drop 3 t1 else t1);
            t3 = (if endswith t2 ''```'' then take (length t2 - 3) t2 else t2);
            response_text = py_strip t3
        in (case json_loads response_text of
              None \<Rightarrow> Inl (ValueError ''Failed to classify job description: AI returned invalid JSON'')
            | Some classified_data \<Rightarrow>
                (case normalize_classified py_float fromisoformat classified_data jd_text of
                   Inl e \<Rightarrow> Inl (ValueError (''Failed to classify job description: '' @ str_exn e))
                 | Inr result \<Rightarrow> Inr result)))"

section \<open>Vocabulary for the read-side join\<close>





section \<open>A small database for the examples\<close>

definition ex_account :: "string \<Rightarrow> string \<Rightarrow> string \<Rightarrow> UserRole \<Rightarrow> account_doc" where
  "ex_account oid mail nm r =
     \<lparr>acc_oid = oid, acc_email = Some mail, acc_name = Some nm, acc_role = r,
      acc_is_active = True, acc_hashed_password = [104, 97, 115, 104], acc_phone = None,
      acc_created_at = 1, acc_updated_at = 1\<rparr>"

definition ex_user :: "string \<Rightarrow> string \<Rightarrow> string \<Rightarrow> UserRole \<Rightarrow> User" where
  "ex_user oid mail nm r =
     \<lparr>user_id = oid, user_email = mail, user_name = nm, user_role = r,
      user_is_active = True, user_hashed_password = [104, 97, 115, 104],
      user_created_at = 1, user_updated_at = 1\<rparr>"

definition ex_base :: "string \<Rightarrow> string \<Rightarrow> JobDescriptionBase" where
  "ex_base t s =
     \<lparr>title = t, description = ''Build services'', client_name = None,
      experience_required = 3, tech_required = [''python''], location = None,
      visa_required = None, start_date = None, job_type = Some CONTRACT, jd_summary = None,
      additional_notes = None, jd_file_url = None, legacy_notes = None, status = s\<rparr>"

definition ex_job :: "string \<Rightarrow> string option \<Rightarrow> string \<Rightarrow> string \<Rightarrow> job_doc" where
  "ex_job oid rid t s =
     \<lparr>doc_oid = oid, doc_id = None, doc_recruiter_id = rid, doc_base = ex_base t s,
      doc_created_at = 2, doc_updated_at = 2, doc_recruiter_name = None,
      doc_recruiter_email = None\<rparr>"

definition ex_submission :: submission_doc where
  "ex_submission =
     \<lparr>sub_oid = ''222222222222222222222222'', sub_jd_id = ''111111111111111111111111'',
      sub_comments = None, sub_consultant_id = ''cccccccccccccccccccccccc'',
      sub_recruiter_id = ''aaaaaaaaaaaaaaaaaaaaaaaa'', sub_resume_path = ''uploads/cv.pdf'',
      sub_status = SUBMITTED, sub_recruiter_read = False, sub_created_at = 3,
      sub_updated_at = 3\<rparr>"

definition ex_profile :: "string \<Rightarrow> string \<Rightarrow> profile_doc" where
  "ex_profile oid cid =
     \<lparr>prof_oid = oid, prof_id = None, prof_consultant_id = Some cid, prof_user_id = None,
      prof_experience_years = Some 4, prof_tech_stack = Some [''python''], prof_rating = None,
      prof_phone = None, prof_name = None, prof_email = None,
      prof_fields = empty_profile_fields, prof_created_at = Some 1, prof_updated_at = Some 1\<rparr>"

text \<open>
  Two recruiters, a consultant and an administrator; an open and a closed job of the
  first recruiter, an open job whose recruiter reference is no identifier and one whose
  recruiter has no account; one submission to the first job; a profile of the consultant,
  one whose reference is no identifier and one whose consultant has no account. The
  recruiter's e-mail address is also an administrator's.
\<close>

definition ex_state :: app_state where
  "ex_state =
     \<lparr>db_initialized = True,
      recruiters = [ex_account ''aaaaaaaaaaaaaaaaaaaaaaaa'' ''rita@example.com'' ''Rita'' RECRUITER,
                    ex_account ''bbbbbbbbbbbbbbbbbbbbbbbb'' ''ravi@example.com'' ''Ravi'' RECRUITER],
      consultants = [ex_account ''cccccccccccccccccccccccc'' ''cara@example.com'' ''Cara'' CONSULTANT],
      admins = [ex_account ''dddddddddddddddddddddddd'' ''adam@example.com'' ''Adam'' ADMIN,
                ex_account ''eeeeeeeeeeeeeeeeeeeeeeee'' ''rita@example.com'' ''Rita A'' ADMIN],
      users = [],
      job_descriptions =
        [ex_job ''111111111111111111111111'' (Some ''aaaaaaaaaaaaaaaaaaaaaaaa'') ''Engineer'' ''OPEN'',
         ex_job ''333333333333333333333333'' (Some ''aaaaaaaaaaaaaaaaaaaaaaaa'') ''Analyst'' ''CLOSED'',
         ex_job ''444444444444444444444444'' (Some ''not-an-id'') ''Tester'' ''OPEN'',
         ex_job ''555555555555555555555555'' (Some ''ffffffffffffffffffffffff'') ''Writer'' ''OPEN''],
      submissions = [ex_submission],
      consultant_profiles =
        [ex_profile ''666666666666666666666666'' ''cccccccccccccccccccccccc'',
         ex_profile ''777777777777777777777777'' ''not-an-id'',
         ex_profile ''888888888888888888888888'' ''ffffffffffffffffffffffff''],
      uploads = []\<rparr>"

definition ex_EmailStr :: "string \<Rightarrow> bool" where
  "ex_EmailStr e = (CHR ''@'' \<in> set e)"

definition no_update :: JobDescriptionUpdate where
  "no_update =
     \<lparr>upd_title = None, upd_description = None, upd_client_name = None,
      upd_experience_required = None, upd_tech_required = None, upd_location = None,
      upd_visa_required = None, upd_start_date = None, upd_job_type = None,
      upd_jd_summary = None, upd_additional_notes = None, upd_jd_file_url = None,
      upd_notes = None, upd_status = None\<rparr>"

text \<open>A password of 73 bytes in 25 code points: the letter a and 24 euro signs.\<close>

definition ex_long_password :: unicode where
  "ex_long_password = 97 # replicate 24 8364"

text \<open>A \<open>float\<close> for the examples, a date parser that knows one date, and a parsed
  answer with a blank title, a \<open>tech_required\<close> that is a string and a date in words.\<close>

definition ex_py_float :: "json \<Rightarrow> exn + rat" where
  "ex_py_float v =
     (case v of
        JNum x \<Rightarrow> Inr x
      | JBool b \<Rightarrow> Inr (if b then 1 else 0)
      | JStr s \<Rightarrow> Inl (ValueError ''could not convert string to float'')
      | other \<Rightarrow> Inl TypeError)"

definition ex_fromisoformat :: "string \<Rightarrow> bool" where
  "ex_fromisoformat s = (s = ''2024-05-01'')"

definition ex_classified :: json where
  "ex_classified =
     JObject [(''title'', JStr ''  ''), (''experience_required'', JNum 5),
              (''tech_required'', JStr ''python''), (''start_date'', JStr ''next month'')]"

text \<open>A parsed answer whose title is \<open>null\<close>, and a parser that answers with it.\<close>

definition ex_null_title :: json where
  "ex_null_title = JObject [(''title'', JNull), (''experience_required'', JNum 5)]"

definition ex_json_loads :: "string \<Rightarrow> json option" where
  "ex_json_loads s = (if s = [] then None else Some ex_null_title)"

section \<open>Facts about the store\<close>

lemma find_one_update_one:
  assumes "\<And>d. query d \<Longrightarrow> query (upd d)"
  shows "find_one query (update_one query upd docs) = map_option upd (find_one query docs)"
  using assms by (induction docs) (auto simp: find_one_def)

lemma find_one_append:
  "find_one query (xs @ ys) =
     (case find_one query xs of Some d \<Rightarrow> Some d | None \<Rightarrow> find_one query ys)"
  by (induction xs) (auto simp: find_one_def)

lemma ObjectId_ex [simp]:
  "ObjectId ''aaaaaaaaaaaaaaaaaaaaaaaa'' = Inr ''aaaaaaaaaaaaaaaaaaaaaaaa''"
  "ObjectId ''bbbbbbbbbbbbbbbbbbbbbbbb'' = Inr ''bbbbbbbbbbbbbbbbbbbbbbbb''"
  "ObjectId ''cccccccccccccccccccccccc'' = Inr ''cccccccccccccccccccccccc''"
  "ObjectId ''ffffffffffffffffffffffff'' = Inr ''ffffffffffffffffffffffff''"
  "ObjectId ''111111111111111111111111'' = Inr ''111111111111111111111111''"
  "ObjectId ''222222222222222222222222'' = Inr ''222222222222222222222222''"
  "ObjectId ''333333333333333333333333'' = Inr ''333333333333333333333333''"
  "ObjectId ''444444444444444444444444'' = Inr ''444444444444444444444444''"
  "ObjectId ''555555555555555555555555'' = Inr ''555555555555555555555555''"
  "ObjectId ''not-an-id'' = Inl (InvalidId ''not-an-id'')"
  "ObjectId ''abc'' = Inl (InvalidId ''abc'')"
  by (simp_all add: ObjectId_def is_hex_digit_def lower_hex_def)

section \<open>Job update: the ownership check\<close>

text \<open>
  C1. When the job exists and \<open>str\<close> of its stored \<open>recruiter_id\<close> is not the caller's
  id, \<open>PUT /jobs/{jd_id}\<close> answers 403 and the state is the one before the call, for
  every role: a consultant is stopped by the role gate, a recruiter and an administrator
  by the ownership check of \<open>JobRepository.update\<close>, which raises the \<open>ValueError\<close> the
  endpoint turns into 403.
\<close>

theorem update_job_rejects_non_owner:
  assumes "db_initialized st"
      and "ObjectId jd_id = Inr oid"
      and "find_one (\<lambda>d. doc_oid d = oid) (job_descriptions st) = Some jd"
      and "py_str (doc_recruiter_id jd) \<noteq> user_id user"
  shows "fst (update_job st now jd_id jd_data user) = st \<and>
         status_code (snd (update_job st now jd_id jd_data user)) = 403 \<and>
         (if user_role user = CONSULTANT
          then snd (update_job st now jd_id jd_data user)
                 = Inl (HTTPException 403 ''Recruiter or admin access required'')
          else JobRepository_update st now jd_id jd_data (user_id user)
                 = (st, Inl (ValueError ''Unauthorized: You can only update your own jobs''))
               \<and> snd (update_job st now jd_id jd_data user)
                 = Inl (HTTPException 403 ''Unauthorized: You can only update your own jobs''))"
  using assms
  by (cases "user_role user")
     (simp_all add: update_job_def require_recruiter_or_admin_def JobRepository_update_def
        get_database_def)

theorem update_job_rejects_non_owner_witness:
  "update_job ex_state 9 ''111111111111111111111111'' (no_update\<lparr>upd_status := Some ''CLOSED''\<rparr>)
       (ex_user ''dddddddddddddddddddddddd'' ''adam@example.com'' ''Adam'' ADMIN)
     = (ex_state, Inl (HTTPException 403 ''Unauthorized: You can only update your own jobs''))"
proof -
  let ?u = "ex_user ''dddddddddddddddddddddddd'' ''adam@example.com'' ''Adam'' ADMIN"
  let ?jd = "ex_job ''111111111111111111111111'' (Some ''aaaaaaaaaaaaaaaaaaaaaaaa'') ''Engineer'' ''OPEN''"
  have a: "db_initialized ex_state" by (simp add: ex_state_def)
  have b: "ObjectId ''111111111111111111111111'' = Inr ''111111111111111111111111''" by simp
  have c: "find_one (\<lambda>d. doc_oid d = ''111111111111111111111111'') (job_descriptions ex_state) = Some ?jd"
    by (simp add: ex_state_def find_one_def ex_job_def)
  have d: "py_str (doc_recruiter_id ?jd) \<noteq> user_id ?u"
    by (simp add: py_str_def ex_job_def ex_user_def)
  have r: "user_role ?u = ADMIN" by (simp add: ex_user_def)
  from update_job_rejects_non_owner [OF a b c d, of 9 "no_update\<lparr>upd_status := Some ''CLOSED''\<rparr>"] r
  show ?thesis by (simp add: prod_eq_iff)
qed

section \<open>Job listing\<close>

lemma collect_Inr:
  "collect (map f xs) = Inr ys \<Longrightarrow> list_all2 (\<lambda>x y. f x = Inr y) xs ys"
proof (induction xs arbitrary: ys)
  case Nil
  then show ?case by simp
next
  case (Cons x xs)
  then show ?case by (auto split: sum.splits)
qed

lemma merge_recruiter_data_keeps:
  "doc_base (merge_recruiter_data st d) = doc_base d"
  "doc_id (merge_recruiter_data st d) = doc_id d"
  "doc_oid (merge_recruiter_data st d) = doc_oid d"
  "doc_recruiter_id (merge_recruiter_data st d) = doc_recruiter_id d"
  by (simp_all add: merge_recruiter_data_def split: option.splits sum.splits)

lemma JobDescription_init_Inr:
  "JobDescription_init d = Inr j \<Longrightarrow>
     job_base j = doc_base d \<and> doc_id d = Some (job_id j) \<and>
     doc_recruiter_id d = Some (job_recruiter_id j) \<and>
     recruiter_name j = doc_recruiter_name d \<and> recruiter_email j = doc_recruiter_email d"
  by (auto simp: JobDescription_init_def split: option.splits if_splits)

lemma get_all_Inr:
  assumes "JobRepository_get_all st skip limit f = Inr jds"
  shows "list_all2 (\<lambda>d j. job_base j = doc_base d \<and> job_id j = doc_oid d)
           (skip_limit skip limit
              (filter (case f of None \<Rightarrow> (\<lambda>d. True)
                       | Some s \<Rightarrow> if s = [] then (\<lambda>d. True) else (\<lambda>d. status (doc_base d) = s))
                 (job_descriptions st))) jds"
proof -
  from assms have c: "collect (map (\<lambda>doc. JobDescription_init
                             (merge_recruiter_data st (doc\<lparr>doc_id := Some (doc_oid doc)\<rparr>)))
      (skip_limit skip limit
              (filter (case f of None \<Rightarrow> (\<lambda>d. True)
                       | Some s \<Rightarrow> if s = [] then (\<lambda>d. True) else (\<lambda>d. status (doc_base d) = s))
                 (job_descriptions st)))) = Inr jds"
    by (simp add: JobRepository_get_all_def Let_def split: sum.splits)
  show ?thesis
    by (rule list_all2_mono [OF collect_Inr [OF c]])
       (auto dest!: JobDescription_init_Inr simp: merge_recruiter_data_keeps)
qed

lemma listing_status:
  "list_all2 (\<lambda>d j. job_base j = doc_base d \<and> job_id j = doc_oid d) ds jds \<Longrightarrow>
   list_all (\<lambda>d. status (doc_base d) = s) ds \<Longrightarrow>
   list_all (\<lambda>j. status (job_base j) = s) jds"
  by (induction rule: list_all2_induct) auto

text \<open>
  C7. Whatever \<open>status\<close> parameter a consultant sends, every job of the listing
  \<open>GET /jobs/\<close> returns has status OPEN; the listing is, in order, the first hundred
  stored jobs whose status is OPEN.
\<close>

theorem consultant_listing_only_open:
  assumes "user_role current_user = CONSULTANT"
      and "get_jobs st status_param current_user = Inr jds"
  shows "list_all (\<lambda>j. status (job_base j) = ''OPEN'') jds \<and>
         map job_id jds =
           map doc_oid (take 100 (filter (\<lambda>d. status (doc_base d) = ''OPEN'') (job_descriptions st)))"
proof -
  from assms have "JobRepository_get_all st 0 100 (Some ''OPEN'') = Inr jds"
    by (simp add: get_jobs_def)
  from get_all_Inr [OF this]
  have l: "list_all2 (\<lambda>d j. job_base j = doc_base d \<and> job_id j = doc_oid d)
             (take 100 (filter (\<lambda>d. status (doc_base d) = ''OPEN'') (job_descriptions st))) jds"
    by (simp add: skip_limit_def)
  have "list_all (\<lambda>d. status (doc_base d) = ''OPEN'')
          (take 100 (filter (\<lambda>d. status (doc_base d) = ''OPEN'') (job_descriptions st)))"
    by (auto simp: list_all_iff dest: in_set_takeD)
  with l have a: "list_all (\<lambda>j. status (job_base j) = ''OPEN'') jds"
    by (rule listing_status)
  have b: "map job_id jds = map doc_oid (take 100 (filter (\<lambda>d. status (doc_base d) = ''OPEN'') (job_descriptions st)))"
    using l by (induction rule: list_all2_induct) auto
  from a b show ?thesis by simp
qed

lemma ex_get_jobs_consultant:
  "map_sum id (map job_id)
     (get_jobs ex_state (Some ''CLOSED'')
        (ex_user ''cccccccccccccccccccccccc'' ''cara@example.com'' ''Cara'' CONSULTANT))
   = Inr [''111111111111111111111111'', ''444444444444444444444444'', ''555555555555555555555555'']"
  by (simp add: get_jobs_def ex_user_def JobRepository_get_all_def get_database_def ex_state_def
      skip_limit_def ex_job_def ex_base_def merge_recruiter_data_def JobDescription_init_def
      find_one_def ex_account_def)

theorem consultant_listing_only_open_witness:
  "map_sum id (map (\<lambda>j. (job_id j, status (job_base j))))
     (get_jobs ex_state (Some ''CLOSED'')
        (ex_user ''cccccccccccccccccccccccc'' ''cara@example.com'' ''Cara'' CONSULTANT))
   = Inr [(''111111111111111111111111'', ''OPEN''), (''444444444444444444444444'', ''OPEN''),
          (''555555555555555555555555'', ''OPEN'')]"
proof -
  let ?u = "ex_user ''cccccccccccccccccccccccc'' ''cara@example.com'' ''Cara'' CONSULTANT"
  obtain jds where g: "get_jobs ex_state (Some ''CLOSED'') ?u = Inr jds"
    using ex_get_jobs_consultant by (cases "get_jobs ex_state (Some ''CLOSED'') ?u") auto
  have r: "user_role ?u = CONSULTANT" by (simp add: ex_user_def)
  from consultant_listing_only_open [OF r g]
  have o: "list_all (\<lambda>j. status (job_base j) = ''OPEN'') jds" by simp
  from ex_get_jobs_consultant g
  have i: "map job_id jds = [''111111111111111111111111'', ''444444444444444444444444'',
                             ''555555555555555555555555'']" by simp
  from i obtain a b c where j: "jds = [a, b, c]"
    by (cases jds; cases "tl jds"; cases "tl (tl jds)"; cases "tl (tl (tl jds))") auto
  with i o g show ?thesis by simp
qed

section \<open>Submission status\<close>

lemma update_status_existing:
  assumes "db_initialized st"
      and "ObjectId submission_id = Inr oid"
      and "find_one (\<lambda>d. sub_oid d = oid) (submissions st) = Some doc"
  shows "SubmissionRepository_update_status st now submission_id t rid =
           (st\<lparr>submissions :=
                  update_one (\<lambda>d. sub_oid d = oid)
                    (\<lambda>d. d\<lparr>sub_status := t, sub_updated_at := now\<rparr>) (submissions st)\<rparr>,
            Inr (Some (Submission_init (doc\<lparr>sub_status := t, sub_updated_at := now\<rparr>))))"
  using assms
  by (simp add: SubmissionRepository_update_status_def SubmissionRepository_get_by_id_def
      get_database_def Let_def find_one_update_one)

text \<open>
  C5. For a submission that exists, whatever its current status, and every status \<open>t\<close>,
  the status update succeeds: the repository function and, for a recruiter or an
  administrator, the endpoint return the submission with status \<open>t\<close>, and \<open>t\<close> is the
  status stored afterwards. No case of the update looks at the old status.
\<close>

theorem update_status_reaches_every_status:
  assumes "db_initialized st"
      and "ObjectId submission_id = Inr oid"
      and "find_one (\<lambda>d. sub_oid d = oid) (submissions st) = Some doc"
      and "user_role user = RECRUITER \<or> user_role user = ADMIN"
  shows "SubmissionRepository_update_status st now submission_id t (user_id user)
           = update_submission_status st now submission_id
               \<lparr>su_status = Some t, su_comments = c, su_recruiter_read = r\<rparr> user
         \<and> snd (update_submission_status st now submission_id
                  \<lparr>su_status = Some t, su_comments = c, su_recruiter_read = r\<rparr> user)
             = Inr (Some (Submission_init (doc\<lparr>sub_status := t, sub_updated_at := now\<rparr>)))
         \<and> s_status (Submission_init (doc\<lparr>sub_status := t, sub_updated_at := now\<rparr>)) = t
         \<and> map_option sub_status
              (find_one (\<lambda>d. sub_oid d = oid)
                 (submissions (fst (update_submission_status st now submission_id
                    \<lparr>su_status = Some t, su_comments = c, su_recruiter_read = r\<rparr> user))))
             = Some t"
proof -
  have e: "update_submission_status st now submission_id
             \<lparr>su_status = Some t, su_comments = c, su_recruiter_read = r\<rparr> user
           = SubmissionRepository_update_status st now submission_id t (user_id user)"
    using assms
    by (auto simp: update_submission_status_def require_recruiter_or_admin_def
        SubmissionRepository_get_by_id_def get_database_def)
  show ?thesis
    unfolding e update_status_existing [OF assms(1-3)]
    using assms(3) by (simp add: find_one_update_one Submission_init_def)
qed

lemma ex_submission_found:
  "find_one (\<lambda>d. sub_oid d = ''222222222222222222222222'') (submissions ex_state)
     = Some ex_submission"
  by (simp add: ex_state_def find_one_def ex_submission_def)

theorem update_status_reaches_every_status_witness:
  "snd (update_submission_status ex_state 9 ''222222222222222222222222''
          \<lparr>su_status = Some JOINED, su_comments = None, su_recruiter_read = None\<rparr>
          (ex_user ''aaaaaaaaaaaaaaaaaaaaaaaa'' ''rita@example.com'' ''Rita'' RECRUITER))
     = Inr (Some (Submission_init (ex_submission\<lparr>sub_status := JOINED, sub_updated_at := 9\<rparr>)))"
proof -
  let ?u = "ex_user ''aaaaaaaaaaaaaaaaaaaaaaaa'' ''rita@example.com'' ''Rita'' RECRUITER"
  have a: "db_initialized ex_state" by (simp add: ex_state_def)
  have b: "ObjectId ''222222222222222222222222'' = Inr ''222222222222222222222222''" by simp
  have d: "user_role ?u = RECRUITER \<or> user_role ?u = ADMIN" by (simp add: ex_user_def)
  from update_status_reaches_every_status [OF a b ex_submission_found d, of 9 JOINED None None]
  show ?thesis by simp
qed

text \<open>
  C2 (the code does not hold it). The second recruiter of the example database does not
  own the submission (its \<open>recruiter_id\<close> is the first recruiter's), and the endpoint
  still stores and returns the new status: \<open>update_status\<close> never reads the
  \<open>recruiter_id\<close> it is given.
\<close>

theorem update_status_by_other_recruiter:
  "sub_recruiter_id ex_submission \<noteq> ''bbbbbbbbbbbbbbbbbbbbbbbb'' \<and>
   update_submission_status ex_state 9 ''222222222222222222222222''
       \<lparr>su_status = Some INTERVIEW, su_comments = None, su_recruiter_read = None\<rparr>
       (ex_user ''bbbbbbbbbbbbbbbbbbbbbbbb'' ''ravi@example.com'' ''Ravi'' RECRUITER)
     = (ex_state\<lparr>submissions := [ex_submission\<lparr>sub_status := INTERVIEW, sub_updated_at := 9\<rparr>]\<rparr>,
        Inr (Some (Submission_init
                     (ex_submission\<lparr>sub_status := INTERVIEW, sub_updated_at := 9\<rparr>))))"
  by (simp add: update_submission_status_def require_recruiter_or_admin_def ex_user_def
      SubmissionRepository_get_by_id_def SubmissionRepository_update_status_def
      get_database_def ex_state_def find_one_def ex_submission_def)

lemma update_status_ignores_caller:
  "SubmissionRepository_update_status st now submission_id t rid
     = SubmissionRepository_update_status st now submission_id t rid'"
  by (simp add: SubmissionRepository_update_status_def)

section \<open>Account lookup by e-mail\<close>

lemma get_user_by_email_first_match:
  assumes "db_initialized st" and "\<not> blank email"
  shows "get_user_by_email EmailStr st email =
           (case find_one (\<lambda>d. acc_email d = Some email)
                   (recruiters st @ consultants st @ admins st) of
              None \<Rightarrow> None
            | Some d \<Rightarrow> (case User_init EmailStr d of Inl e \<Rightarrow> None | Inr u \<Rightarrow> Some u))"
  using assms
  by (simp add: get_user_by_email_def get_database_def find_one_append Let_def
      split: option.splits)

lemma find_one_Some:
  "find_one query docs = Some d \<Longrightarrow> d \<in> set docs \<and> query d"
  by (auto simp: find_one_def find_Some_iff)

lemma find_one_None:
  "find_one query docs = None \<longleftrightarrow> (\<forall>d \<in> set docs. \<not> query d)"
  by (auto simp: find_one_def find_None_iff)

lemma User_init_email:
  "User_init EmailStr d = Inr u \<Longrightarrow> acc_email d = Some (user_email u) \<and> EmailStr (user_email u)"
  by (auto simp: User_init_def split: option.splits if_splits)

text \<open>
  C8. On an initialised database whose account documents are all accepted by the model
  \<open>User\<close> (with an e-mail check that accepts no blank string), the lookup by \<open>email\<close>,
  for every string, is the first match in the recruiters, then the consultants, then the
  administrators, and \<open>None\<close> when no collection has one; so a recruiter's account wins
  over a consultant's or an administrator's with the same address.
\<close>

theorem get_user_by_email_order:
  assumes "db_initialized st"
      and "\<forall>e. EmailStr e \<longrightarrow> \<not> blank e"
      and "\<forall>d \<in> set (recruiters st @ consultants st @ admins st).
             \<exists>u. User_init EmailStr d = Inr u"
  shows "get_user_by_email EmailStr st email =
           (case find_one (\<lambda>d. acc_email d = Some email)
                   (recruiters st @ consultants st @ admins st) of
              None \<Rightarrow> None
            | Some d \<Rightarrow> (case User_init EmailStr d of Inl e \<Rightarrow> None | Inr u \<Rightarrow> Some u))
         \<and> (get_user_by_email EmailStr st email = None
              \<longleftrightarrow> (\<forall>d \<in> set (recruiters st @ consultants st @ admins st).
                     acc_email d \<noteq> Some email))
         \<and> (\<forall>d. find_one (\<lambda>d. acc_email d = Some email) (recruiters st) = Some d
                \<longrightarrow> map_sum id Some (User_init EmailStr d)
                      = Inr (get_user_by_email EmailStr st email))"
proof (cases "blank email")
  case False
  note fm = get_user_by_email_first_match [OF assms(1) False, of EmailStr]
  have ok: "\<And>d. find_one (\<lambda>d. acc_email d = Some email)
                    (recruiters st @ consultants st @ admins st) = Some d
              \<Longrightarrow> \<exists>u. User_init EmailStr d = Inr u"
    using assms(3) by (blast dest: find_one_Some)
  have none: "get_user_by_email EmailStr st email = None
              \<longleftrightarrow> (\<forall>d \<in> set (recruiters st @ consultants st @ admins st).
                     acc_email d \<noteq> Some email)"
  proof (cases "find_one (\<lambda>d. acc_email d = Some email)
                   (recruiters st @ consultants st @ admins st)")
    case None
    with fm have "get_user_by_email EmailStr st email = None" by simp
    moreover from None
    have "\<forall>d \<in> set (recruiters st @ consultants st @ admins st). acc_email d \<noteq> Some email"
      by (simp only: find_one_None)
    ultimately show ?thesis by simp
  next
    case (Some d)
    with ok obtain u where "User_init EmailStr d = Inr u" by blast
    with Some fm have "get_user_by_email EmailStr st email \<noteq> None" by simp
    moreover from find_one_Some [OF Some]
    have "\<not> (\<forall>d \<in> set (recruiters st @ consultants st @ admins st).
                acc_email d \<noteq> Some email)"
      by blast
    ultimately show ?thesis by blast
  qed
  have rec: "\<forall>d. find_one (\<lambda>d. acc_email d = Some email) (recruiters st) = Some d
                \<longrightarrow> map_sum id Some (User_init EmailStr d)
                      = Inr (get_user_by_email EmailStr st email)"
  proof (intro allI impI)
    fix d assume f: "find_one (\<lambda>d. acc_email d = Some email) (recruiters st) = Some d"
    then have "find_one (\<lambda>d. acc_email d = Some email)
                 (recruiters st @ consultants st @ admins st) = Some d"
      by (simp add: find_one_append)
    moreover from this ok obtain u where "User_init EmailStr d = Inr u" by blast
    ultimately show "map_sum id Some (User_init EmailStr d)
                      = Inr (get_user_by_email EmailStr st email)"
      using fm by simp
  qed
  from fm none rec show ?thesis by blast
next
  case True
  have nomatch: "\<forall>d \<in> set (recruiters st @ consultants st @ admins st).
                   acc_email d \<noteq> Some email"
  proof
    fix d assume "d \<in> set (recruiters st @ consultants st @ admins st)"
    with assms(3) obtain u where "User_init EmailStr d = Inr u" by blast
    from User_init_email [OF this] assms(2) True
    show "acc_email d \<noteq> Some email" by auto
  qed
  then have f: "find_one (\<lambda>d. acc_email d = Some email)
                  (recruiters st @ consultants st @ admins st) = None"
    by (simp add: find_one_None)
  then have "find_one (\<lambda>d. acc_email d = Some email) (recruiters st) = None"
    by (simp add: find_one_append split: option.splits)
  moreover have "get_user_by_email EmailStr st email = None"
    using True by (simp add: get_user_by_email_def)
  ultimately show ?thesis using f nomatch by simp
qed

lemma ex_EmailStr_not_blank: "\<forall>e. ex_EmailStr e \<longrightarrow> \<not> blank e"
proof (intro allI impI notI)
  fix e assume "ex_EmailStr e" and "blank e"
  then have "py_isspace (of_char (CHR ''@''))"
    by (auto simp: ex_EmailStr_def blank_def list_all_iff)
  then show False by (simp add: py_isspace_def)
qed

lemma ex_state_accounts_valid:
  "\<forall>d \<in> set (recruiters ex_state @ consultants ex_state @ admins ex_state).
     \<exists>u. User_init ex_EmailStr d = Inr u"
  by (simp add: ex_state_def ex_account_def User_init_def ex_EmailStr_def blank_def
      py_isspace_def)

theorem get_user_by_email_order_witness:
  "get_user_by_email ex_EmailStr ex_state ''rita@example.com''
     = Some (ex_user ''aaaaaaaaaaaaaaaaaaaaaaaa'' ''rita@example.com'' ''Rita'' RECRUITER)
   \<and> get_user_by_email ex_EmailStr ex_state ''nobody@example.com'' = None"
proof -
  have a: "db_initialized ex_state" by (simp add: ex_state_def)
  have r: "find_one (\<lambda>d. acc_email d = Some ''rita@example.com'') (recruiters ex_state)
             = Some (ex_account ''aaaaaaaaaaaaaaaaaaaaaaaa'' ''rita@example.com'' ''Rita'' RECRUITER)"
    by (simp add: ex_state_def find_one_def ex_account_def)
  have u: "User_init ex_EmailStr
             (ex_account ''aaaaaaaaaaaaaaaaaaaaaaaa'' ''rita@example.com'' ''Rita'' RECRUITER)
           = Inr (ex_user ''aaaaaaaaaaaaaaaaaaaaaaaa'' ''rita@example.com'' ''Rita'' RECRUITER)"
    by (simp add: ex_account_def ex_user_def User_init_def ex_EmailStr_def blank_def
        py_isspace_def)
  have n: "\<forall>d \<in> set (recruiters ex_state @ consultants ex_state @ admins ex_state).
             acc_email d \<noteq> Some ''nobody@example.com''"
    by (simp add: ex_state_def ex_account_def)
  from get_user_by_email_order [OF a ex_EmailStr_not_blank ex_state_accounts_valid,
         of "''rita@example.com''"] r u
  have 1: "get_user_by_email ex_EmailStr ex_state ''rita@example.com''
     = Some (ex_user ''aaaaaaaaaaaaaaaaaaaaaaaa'' ''rita@example.com'' ''Rita'' RECRUITER)"
    by simp
  from get_user_by_email_order [OF a ex_EmailStr_not_blank ex_state_accounts_valid,
         of "''nobody@example.com''"] n
  have 2: "get_user_by_email ex_EmailStr ex_state ''nobody@example.com'' = None"
    by blast
  from 1 2 show ?thesis by simp
qed

section \<open>Passwords\<close>

lemma get_password_hash_eq:
  "get_password_hash ctx s p =
     (case truncate_password p of
        Inl e \<Rightarrow> Inl (ValueError (''Password hashing failed: '' @ str_exn e))
      | Inr p' \<Rightarrow> (case ctx_hash ctx s p' of
                    Inl e \<Rightarrow> Inl (ValueError (''Password hashing failed: '' @ str_exn e))
                  | Inr h \<Rightarrow> Inr h))"
  by (simp add: get_password_hash_def truncate_password_def Let_def split: sum.splits)

lemma verify_password_eq:
  "verify_password ctx p h =
     (case truncate_password p of
        Inl e \<Rightarrow> False
      | Inr p' \<Rightarrow> (case ctx_verify ctx p' h of Inl e \<Rightarrow> False | Inr b \<Rightarrow> b))"
  by (simp add: verify_password_def truncate_password_def Let_def split: sum.splits)

lemma truncate_password_short:
  "encode_utf8 p = Inr bs \<Longrightarrow> length bs \<le> 72 \<Longrightarrow> truncate_password p = Inr p"
  by (simp add: truncate_password_def PASSWORD_MAX_BYTES_def)

text \<open>
  C3, as the code has it. With a library that verifies the password it hashed and
  rejects every other one, a hash that \<open>get_password_hash\<close> returned for \<open>p\<close> verifies
  \<open>p\<close>; it verifies \<open>q\<close> exactly when \<open>q\<close> and \<open>p\<close> have the same 72-byte truncation,
  which both functions apply before they call the library.
\<close>

theorem password_round_trip:
  assumes "\<forall>s x h. ctx_hash ctx s x = Inr h \<longrightarrow> ctx_verify ctx x h = Inr True"
      and "\<forall>s x y h. ctx_hash ctx s x = Inr h \<and> y \<noteq> x \<longrightarrow> ctx_verify ctx y h = Inr False"
      and "get_password_hash ctx s p = Inr h"
  shows "verify_password ctx p h \<and>
         (verify_password ctx q h \<longleftrightarrow> truncate_password q = truncate_password p)"
proof -
  from assms(3) obtain p' where tp: "truncate_password p = Inr p'"
    and hp: "ctx_hash ctx s p' = Inr h"
    by (auto simp: get_password_hash_eq split: sum.splits)
  from assms(1) hp have vp: "ctx_verify ctx p' h = Inr True" by blast
  have 1: "verify_password ctx p h"
    by (simp add: verify_password_eq tp vp)
  have 2: "verify_password ctx q h \<longleftrightarrow> truncate_password q = truncate_password p"
  proof (cases "truncate_password q")
    case (Inl e)
    then show ?thesis by (simp add: verify_password_eq tp)
  next
    case (Inr q')
    show ?thesis
    proof (cases "q' = p'")
      case True
      with Inr tp vp show ?thesis by (simp add: verify_password_eq)
    next
      case False
      with assms(2) hp have "ctx_verify ctx q' h = Inr False" by blast
      with Inr tp False show ?thesis by (simp add: verify_password_eq)
    qed
  qed
  from 1 2 show ?thesis by simp
qed

lemma exact_context_verifies:
  "\<forall>s x h. ctx_hash exact_context s x = Inr h \<longrightarrow> ctx_verify exact_context x h = Inr True"
  by (simp add: exact_context_def)

lemma exact_context_separates:
  "\<forall>s x y h. ctx_hash exact_context s x = Inr h \<and> y \<noteq> x
     \<longrightarrow> ctx_verify exact_context y h = Inr False"
  by (auto simp: exact_context_def)

lemma utf8_encode_char_euro: "utf8_encode_char 8364 = Inr [0xE2, 0x82, 0xAC]"
  by (simp add: utf8_encode_char_def)

lemma utf8_encode_char_ascii: "c < 128 \<Longrightarrow> utf8_encode_char c = Inr [of_nat c]"
  by (simp add: utf8_encode_char_def)

lemma replicate_num: "replicate (numeral k) x = x # replicate (pred_numeral k) x"
  by (simp add: numeral_eq_Suc)

lemma ex_long_password_truncated:
  "truncate_password ex_long_password = Inr (97 # replicate 23 8364)"
  by (simp add: ex_long_password_def truncate_password_def PASSWORD_MAX_BYTES_def
      utf8_encode_char_euro utf8_encode_char_ascii replicate_num strip_incomplete.simps
      is_continuation_def low6_def)

lemma ex_long_password_hash:
  "get_password_hash exact_context () ex_long_password = Inr (97 # replicate 23 8364)"
  by (simp add: get_password_hash_eq ex_long_password_truncated exact_context_def)

lemma ex_other_password_truncated:
  "truncate_password (ex_long_password @ [98]) = Inr (97 # replicate 23 8364)"
  by (simp add: ex_long_password_def truncate_password_def PASSWORD_MAX_BYTES_def
      utf8_encode_char_euro utf8_encode_char_ascii replicate_num strip_incomplete.simps
      is_continuation_def low6_def)

text \<open>The hash of a 73-byte password with multi-byte characters verifies it, and also
  the longer password that shares its truncation.\<close>

theorem password_round_trip_witness:
  "get_password_hash exact_context () ex_long_password = Inr (97 # replicate 23 8364) \<and>
   verify_password exact_context ex_long_password (97 # replicate 23 8364) \<and>
   verify_password exact_context (ex_long_password @ [98]) (97 # replicate 23 8364)"
  using password_round_trip [OF exact_context_verifies exact_context_separates
          ex_long_password_hash, of "ex_long_password @ [98]"]
        ex_long_password_hash ex_long_password_truncated ex_other_password_truncated
  by simp

text \<open>
  C3 as stated fails in its second half: two different passwords of more than 72 bytes
  that agree on their first 72 bytes verify against each other's hash, even with a
  library that separates all passwords.
\<close>

theorem password_mismatch_counterexample:
  "replicate 74 97 \<noteq> replicate 73 (97::nat) \<and>
   get_password_hash exact_context () (replicate 73 97) = Inr (replicate 72 97) \<and>
   verify_password exact_context (replicate 74 97) (replicate 72 97) = True"
  by code_simp

text \<open>The cases the claim names: a password of exactly 72 bytes reaches the library
  unchanged.\<close>

lemma password_72_bytes:
  "encode_utf8 (replicate 72 97) = Inr (replicate 72 97) \<and>
   truncate_password (replicate 72 97) = Inr (replicate 72 97)"
  by code_simp

section \<open>Password length at account creation and at login\<close>

lemma validate_password_length_Inr:
  "validate_password_length v = Inr w \<Longrightarrow>
     w = v \<and> (\<exists>bs. encode_utf8 v = Inr bs \<and> length bs \<le> 72)"
  by (auto simp: validate_password_length_def Let_def split: if_splits sum.splits)

lemma UserCreate_init_Inr:
  "UserCreate_init EmailStr data = Inr ud \<Longrightarrow>
     ud = data \<and> (\<exists>bs. encode_utf8 (uc_password data) = Inr bs \<and> length bs \<le> 72)"
  by (auto simp: UserCreate_init_def split: if_splits sum.splits
      dest: validate_password_length_Inr)

lemma UserCreate_init_overlong:
  assumes "encode_utf8 (uc_password body) = Inr bs" and "72 < length bs"
  shows "\<exists>e. UserCreate_init EmailStr body = Inl e"
proof (cases "UserCreate_init EmailStr body")
  case (Inl e)
  then show ?thesis by blast
next
  case (Inr ud)
  from UserCreate_init_Inr [OF this] assms show ?thesis by auto
qed

text \<open>
  C10. A request body whose password has more than 72 bytes of UTF-8 does not build a
  \<open>UserCreate\<close>: \<open>POST /auth/register\<close> and \<open>POST /auth/users\<close> answer 422 and leave the
  state as it was, whatever the hashing library is, so no hashing has run. A body that
  does build a \<open>UserCreate\<close> has a password of at most 72 bytes, and \<open>get_password_hash\<close>
  hands it to the library as it is. A login body has no such bound: an over-long
  password that is not blank builds a \<open>UserLogin\<close>, and \<open>verify_password\<close> hands the
  library its truncation.
\<close>

theorem overlong_password_rejected_before_hashing:
  assumes "encode_utf8 (uc_password body) = Inr bs" and "72 < length bs"
  shows "fst (register EmailStr ctx salt new_oid now st body) = st
         \<and> status_code (snd (register EmailStr ctx salt new_oid now st body)) = 422
         \<and> fst (create_user EmailStr ctx salt new_oid now st body admin) = st
         \<and> status_code (snd (create_user EmailStr ctx salt new_oid now st body admin)) = 422
         \<and> (\<forall>data ud. UserCreate_init EmailStr data = Inr ud \<longrightarrow>
               truncate_password (uc_password ud) = Inr (uc_password ud)
               \<and> get_password_hash ctx salt (uc_password ud)
                   = (case ctx_hash ctx salt (uc_password ud) of
                        Inl e \<Rightarrow> Inl (ValueError (''Password hashing failed: '' @ str_exn e))
                      | Inr h \<Rightarrow> Inr h))
         \<and> (EmailStr mail \<and> \<not> blank_unicode (uc_password body) \<longrightarrow>
               UserLogin_init EmailStr \<lparr>ul_email = mail, ul_password = uc_password body\<rparr>
                 = Inr \<lparr>ul_email = mail, ul_password = uc_password body\<rparr>
               \<and> verify_password ctx (uc_password body) h
                   = (case ctx_verify ctx
                             (decode_utf8_ignore (strip_incomplete (take 72 bs))) h of
                        Inl e \<Rightarrow> False
                      | Inr b \<Rightarrow> b))"
proof -
  from UserCreate_init_overlong [OF assms]
  obtain e where e: "UserCreate_init EmailStr body = Inl e" by blast
  have 1: "register EmailStr ctx salt new_oid now st body
             = (st, Inl (RequestValidationError (str_exn e)))"
    by (simp add: register_def e)
  have 2: "create_user EmailStr ctx salt new_oid now st body admin
             = (st, Inl (RequestValidationError (str_exn e)))"
    by (simp add: create_user_def e)
  have 3: "\<forall>data ud. UserCreate_init EmailStr data = Inr ud \<longrightarrow>
               truncate_password (uc_password ud) = Inr (uc_password ud)
               \<and> get_password_hash ctx salt (uc_password ud)
                   = (case ctx_hash ctx salt (uc_password ud) of
                        Inl e \<Rightarrow> Inl (ValueError (''Password hashing failed: '' @ str_exn e))
                      | Inr h \<Rightarrow> Inr h)"
  proof (intro allI impI)
    fix data ud assume "UserCreate_init EmailStr data = Inr ud"
    from UserCreate_init_Inr [OF this]
    obtain cs where "ud = data" "encode_utf8 (uc_password ud) = Inr cs" "length cs \<le> 72"
      by auto
    then have t: "truncate_password (uc_password ud) = Inr (uc_password ud)"
      by (simp add: truncate_password_short)
    then show "truncate_password (uc_password ud) = Inr (uc_password ud)
               \<and> get_password_hash ctx salt (uc_password ud)
                   = (case ctx_hash ctx salt (uc_password ud) of
                        Inl e \<Rightarrow> Inl (ValueError (''Password hashing failed: '' @ str_exn e))
                      | Inr h \<Rightarrow> Inr h)"
      by (simp add: get_password_hash_eq)
  qed
  have 4: "EmailStr mail \<and> \<not> blank_unicode (uc_password body) \<longrightarrow>
               UserLogin_init EmailStr \<lparr>ul_email = mail, ul_password = uc_password body\<rparr>
                 = Inr \<lparr>ul_email = mail, ul_password = uc_password body\<rparr>
               \<and> verify_password ctx (uc_password body) h
                   = (case ctx_verify ctx
                             (decode_utf8_ignore (strip_incomplete (take 72 bs))) h of
                        Inl e \<Rightarrow> False
                      | Inr b \<Rightarrow> b)"
    using assms
    by (simp add: UserLogin_init_def validate_password_present_def verify_password_def
        PASSWORD_MAX_BYTES_def)
  from 1 2 3 4 show ?thesis by simp
qed

lemma ex_long_password_encoded:
  "encode_utf8 ex_long_password = Inr (97 # concat (replicate 24 [0xE2, 0x82, 0xAC]))"
  by (simp add: ex_long_password_def utf8_encode_char_euro utf8_encode_char_ascii replicate_num)

theorem overlong_password_rejected_before_hashing_witness:
  "fst (register ex_EmailStr exact_context () ''999999999999999999999999'' 7 ex_state
          \<lparr>uc_email = ''nina@example.com'', uc_name = ''Nina'', uc_role = CONSULTANT,
           uc_is_active = True, uc_password = ex_long_password\<rparr>) = ex_state
   \<and> status_code
        (snd (register ex_EmailStr exact_context () ''999999999999999999999999'' 7 ex_state
                \<lparr>uc_email = ''nina@example.com'', uc_name = ''Nina'', uc_role = CONSULTANT,
                 uc_is_active = True, uc_password = ex_long_password\<rparr>)) = 422"
proof -
  let ?body = "\<lparr>uc_email = ''nina@example.com'', uc_name = ''Nina'', uc_role = CONSULTANT,
                 uc_is_active = True, uc_password = ex_long_password\<rparr>"
  have a: "encode_utf8 (uc_password ?body)
             = Inr (97 # concat (replicate 24 [0xE2, 0x82, 0xAC]))"
    by (simp add: ex_long_password_encoded)
  have b: "72 < length (97 # concat (replicate 24 [0xE2, 0x82, 0xAC :: byte]))"
    by (simp add: replicate_num)
  from overlong_password_rejected_before_hashing [OF a b,
         of ex_EmailStr exact_context "()" "''999999999999999999999999''" 7 ex_state]
  show ?thesis by blast
qed

text \<open>A password of 72 bytes passes the validator and the account is created with the
  hash of the whole password.\<close>

lemma register_72_bytes:
  "map_option acc_hashed_password
     (find_one (\<lambda>d. acc_email d = Some ''nina@example.com'')
        (consultants
           (fst (register ex_EmailStr exact_context () ''999999999999999999999999'' 7 ex_state
                   \<lparr>uc_email = ''nina@example.com'', uc_name = ''Nina'', uc_role = CONSULTANT,
                    uc_is_active = True, uc_password = replicate 72 97\<rparr>))))
     = Some (replicate 72 97)"
proof -
  have e: "encode_utf8 (replicate 72 97) = Inr (replicate 72 97)"
    using password_72_bytes by simp
  have t: "truncate_password (replicate 72 97) = Inr (replicate 72 97)"
    using password_72_bytes by simp
  have v: "validate_password_length (replicate 72 97) = Inr (replicate 72 97)"
    unfolding validate_password_length_def e by (simp add: replicate_num)
  show ?thesis
    by (simp add: register_def UserCreate_init_def v ex_EmailStr_def
        AuthRepository_create_user_def UserRepository_create_def get_database_def e
        get_password_hash_eq t exact_context_def Let_def insert_account_def
        ex_state_def find_one_def ex_account_def User_init_def blank_def py_isspace_def)
qed

section \<open>Normalisation of the classified fields\<close>

lemma py_strip_blank: "blank t \<Longrightarrow> py_strip t = []"
proof -
  assume "blank t"
  then have "dropWhile (\<lambda>c. py_isspace (of_char c)) t = []"
    by (simp add: blank_def list_all_iff)
  then show ?thesis by (simp add: py_strip_def del: dropWhile_eq_Nil_conv)
qed

text \<open>When the normalisation returns: the title is absent or a string, and \<open>float\<close>
  accepts the experience value.\<close>

lemma normalize_classified_returns:
  assumes "map_of kvs ''title'' = None \<or> (\<exists>t. map_of kvs ''title'' = Some (JStr t))"
      and "py_float (case map_of kvs ''experience_required'' of None \<Rightarrow> JNum 0 | Some v \<Rightarrow> v)
             = Inr x"
  shows "\<exists>r. normalize_classified py_float fromisoformat (JObject kvs) jd_text = Inr r"
  using assms by (auto simp: normalize_classified_def Let_def)

text \<open>
  Of every value the normalisation returns on a parsed object: the title is
  \<open>Untitled Position\<close> when the parsed title is missing or blank, \<open>tech_required\<close> is
  the empty list when the parsed value is not a list, and \<open>start_date\<close> is null when the
  parsed value is there and is not a string that \<open>fromisoformat\<close> parses (after the
  code's replacement of \<open>Z\<close>).
\<close>

theorem normalize_classified_fields:
  assumes "normalize_classified py_float fromisoformat (JObject kvs) jd_text = Inr r"
  shows "((map_of kvs ''title'' = None \<or> (\<exists>t. map_of kvs ''title'' = Some (JStr t) \<and> blank t))
            \<longrightarrow> c_title r = ''Untitled Position'')
         \<and> ((\<forall>xs. map_of kvs ''tech_required'' \<noteq> Some (JList xs)) \<longrightarrow> c_tech_required r = [])
         \<and> (\<forall>v. map_of kvs ''start_date'' = Some v
                  \<and> (\<forall>d. v = JStr d \<longrightarrow> \<not> fromisoformat (replace_Z d))
                \<longrightarrow> c_start_date r = JNull)"
proof -
  from assms obtain title0 experience where
    t0: "(case map_of kvs ''title'' of
            None \<Rightarrow> Inr (py_strip [])
          | Some (JStr t) \<Rightarrow> Inr (py_strip t)
          | Some other \<Rightarrow> Inl AttributeError) = Inr title0"
    and r: "r = \<lparr>c_title = (if title0 = [] then ''Untitled Position'' else title0),
                 c_client_name = or_None (map_of kvs ''client_name''),
                 c_experience_required = experience,
                 c_tech_required =
                   (case (case map_of kvs ''tech_required'' of None \<Rightarrow> JList [] | Some v \<Rightarrow> v) of
                      JList xs \<Rightarrow> xs | other \<Rightarrow> []),
                 c_location = or_None (map_of kvs ''location''),
                 c_visa_required = or_None (map_of kvs ''visa_required''),
                 c_start_date =
                   (if truthy (or_None (map_of kvs ''start_date''))
                    then (case or_None (map_of kvs ''start_date'') of
                            JStr d \<Rightarrow> if fromisoformat (replace_Z d)
                                      then or_None (map_of kvs ''start_date'') else JNull
                          | other \<Rightarrow> JNull)
                    else or_None (map_of kvs ''start_date'')),
                 c_job_type = or_None (map_of kvs ''job_type''),
                 c_jd_summary = or_None (map_of kvs ''jd_summary''),
                 c_additional_notes = or_None (map_of kvs ''additional_notes''),
                 c_description = jd_text\<rparr>"
    by (auto simp: normalize_classified_def Let_def split: sum.splits)
  have title: "(map_of kvs ''title'' = None \<or> (\<exists>t. map_of kvs ''title'' = Some (JStr t) \<and> blank t))
            \<longrightarrow> c_title r = ''Untitled Position''"
  proof (intro impI, elim disjE exE conjE)
    assume "map_of kvs ''title'' = None"
    with t0 have "title0 = []" by (simp add: py_strip_blank blank_def)
    then show "c_title r = ''Untitled Position''" by (simp add: r)
  next
    fix t assume "map_of kvs ''title'' = Some (JStr t)" and "blank t"
    with t0 have "title0 = []" by (simp add: py_strip_blank)
    then show "c_title r = ''Untitled Position''" by (simp add: r)
  qed
  have tech: "(\<forall>xs. map_of kvs ''tech_required'' \<noteq> Some (JList xs)) \<longrightarrow> c_tech_required r = []"
    by (auto simp: r split: option.splits json.splits)
  have date: "\<forall>v. map_of kvs ''start_date'' = Some v
                  \<and> (\<forall>d. v = JStr d \<longrightarrow> \<not> fromisoformat (replace_Z d))
                \<longrightarrow> c_start_date r = JNull"
  proof (intro allI impI)
    fix v assume a: "map_of kvs ''start_date'' = Some v
                  \<and> (\<forall>d. v = JStr d \<longrightarrow> \<not> fromisoformat (replace_Z d))"
    show "c_start_date r = JNull"
    proof (cases "truthy v")
      case False
      with a show ?thesis by (simp add: r or_None_def)
    next
      case True
      with a show ?thesis by (cases v) (simp_all add: r or_None_def)
    qed
  qed
  from title tech date show ?thesis by blast
qed

lemma ex_classified_normalized:
  "normalize_classified ex_py_float ex_fromisoformat ex_classified ''Senior engineer wanted''
     = Inr \<lparr>c_title = ''Untitled Position'', c_client_name = JNull,
            c_experience_required = 5, c_tech_required = [], c_location = JNull,
            c_visa_required = JNull, c_start_date = JNull, c_job_type = JNull,
            c_jd_summary = JNull, c_additional_notes = JNull,
            c_description = ''Senior engineer wanted''\<rparr>"
  by (simp add: normalize_classified_def ex_classified_def ex_py_float_def ex_fromisoformat_def
      py_strip_def py_isspace_def or_None_def replace_Z_def Let_def)

theorem normalize_classified_fields_witness:
  "map_sum id (\<lambda>r. (c_title r, c_tech_required r, c_start_date r))
     (normalize_classified ex_py_float ex_fromisoformat ex_classified ''Senior engineer wanted'')
     = Inr (''Untitled Position'', [], JNull)"
proof -
  let ?kvs = "[(''title'', JStr ''  ''), (''experience_required'', JNum 5),
               (''tech_required'', JStr ''python''), (''start_date'', JStr ''next month'')]"
  obtain r where r: "normalize_classified ex_py_float ex_fromisoformat (JObject ?kvs)
                       ''Senior engineer wanted'' = Inr r"
    using ex_classified_normalized by (simp add: ex_classified_def)
  have t: "map_of ?kvs ''title'' = Some (JStr ''  '') \<and> blank ''  ''"
    by (simp add: blank_def py_isspace_def)
  have k: "\<forall>xs. map_of ?kvs ''tech_required'' \<noteq> Some (JList xs)" by simp
  have d: "map_of ?kvs ''start_date'' = Some (JStr ''next month'')
           \<and> (\<forall>d. JStr ''next month'' = JStr d \<longrightarrow> \<not> ex_fromisoformat (replace_Z d))"
    by (simp add: ex_fromisoformat_def replace_Z_def)
  from normalize_classified_fields [OF r] t k d
  have "c_title r = ''Untitled Position'' \<and> c_tech_required r = [] \<and> c_start_date r = JNull"
    by blast
  with r show ?thesis by (simp add: ex_classified_def)
qed

text \<open>
  C9 (the code does not hold it). A parsed answer whose title is \<open>null\<close> has no title,
  and no placeholder is returned for it: \<open>.strip()\<close> is called on the value before the
  placeholder is set, so the normalisation raises and \<open>classify_job_description\<close> leaves
  with a \<open>ValueError\<close>.
\<close>

theorem classify_null_title_raises:
  "normalize_classified ex_py_float ex_fromisoformat ex_null_title ''Senior engineer wanted''
     = Inl AttributeError
   \<and> classify_job_description ''key'' ex_json_loads ex_py_float ex_fromisoformat
       ''answer'' ''Senior engineer wanted''
     = Inl (ValueError ''Failed to classify job description: attribute error'')"
  by (simp add: normalize_classified_def classify_job_description_def ex_null_title_def
      ex_json_loads_def py_strip_def py_isspace_def startswith_def endswith_def Let_def)

text \<open>The same with no title at all and an experience value that \<open>float\<close> refuses.\<close>

lemma classify_unfloatable_experience_raises:
  "normalize_classified ex_py_float ex_fromisoformat
     (JObject [(''experience_required'', JStr ''5 years'')]) ''Senior engineer wanted''
     = Inl (ValueError ''could not convert string to float'')"
  by (simp add: normalize_classified_def ex_py_float_def py_strip_def)

section \<open>The read-side join\<close>


lemma set_skip_limit: "set (skip_limit skip limit (filter query docs)) \<subseteq> set docs"
proof
  fix x assume "x \<in> set (skip_limit skip limit (filter query docs))"
  then have "x \<in> set (drop skip (filter query docs))"
    by (auto simp: skip_limit_def dest: in_set_takeD split: if_splits)
  then have "x \<in> set (filter query docs)" by (rule in_set_dropD)
  then show "x \<in> set docs" by simp
qed
















section \<open>Creating a submission\<close>

text \<open>
  C4 (the code does not hold it). A job id that is no ObjectId names no job, and the
  request does not end with 404: \<open>JobRepository.get_by_id\<close> lets \<open>InvalidId\<close> out, the
  endpoint calls it outside its \<open>try\<close>, and the framework answers 500.
\<close>

theorem create_submission_malformed_job_id:
  "create_submission ex_state 9 ''999999999999999999999999'' ''000000000000000000000000''
       ''1a2b3c4d'' ''abc'' None ''cv.pdf'' ''resume''
       (ex_user ''cccccccccccccccccccccccc'' ''cara@example.com'' ''Cara'' CONSULTANT)
     = (ex_state, Inl (InvalidId ''abc''))
   \<and> status_code (Inl (InvalidId ''abc'') :: exn + Submission) = 500"
  by (simp add: create_submission_def require_role_def ex_user_def JobRepository_get_by_id_def
      get_database_def ex_state_def)

lemma create_or_update_frame:
  "db_initialized (fst (ConsultantRepository_create_or_update st now oid uid pd))
     = db_initialized st
   \<and> submissions (fst (ConsultantRepository_create_or_update st now oid uid pd))
       = submissions st
   \<and> uploads (fst (ConsultantRepository_create_or_update st now oid uid pd)) = uploads st
   \<and> job_descriptions (fst (ConsultantRepository_create_or_update st now oid uid pd))
       = job_descriptions st"
  by (simp add: ConsultantRepository_create_or_update_def Let_def
      split: sum.splits option.splits)

lemma get_by_id_found:
  assumes "db_initialized st" and "ObjectId jd_id = Inr oid"
      and "find_one (\<lambda>d. doc_oid d = oid) (job_descriptions st) = Some d"
      and "JobDescription_init (merge_recruiter_data st (d\<lparr>doc_id := Some (doc_oid d)\<rparr>)) = Inr j"
  shows "JobRepository_get_by_id st jd_id = Inr (Some j)"
    and "status (job_base j) = status (doc_base d)"
    and "doc_recruiter_id d = Some (job_recruiter_id j)"
  using assms JobDescription_init_Inr [OF assms(4)]
  by (simp_all add: JobRepository_get_by_id_def get_database_def merge_recruiter_data_keeps)

text \<open>
  The submission endpoint on a well-formed job id, for a consultant (or an
  administrator, whom the role gate lets through): no such job gives 404 and a job that
  is not OPEN gives 400, both with the state as it was; an OPEN job gives one new
  document at the end of \<open>submissions\<close>, with status SUBMITTED, \<open>recruiter_read\<close> false,
  the job's \<open>recruiter_id\<close> and the path of the file that now holds the upload, and the
  response is that document.
\<close>

theorem create_submission_lifecycle:
  assumes "db_initialized st"
      and "user_role user = CONSULTANT \<or> user_role user = ADMIN"
      and "ObjectId jd_id = Inr oid"
  shows "(find_one (\<lambda>d. doc_oid d = oid) (job_descriptions st) = None \<longrightarrow>
            create_submission st now profile_oid new_oid rnd jd_id comments fname content user
              = (st, Inl (HTTPException 404 ''Job not found'')))
         \<and> (\<forall>d j. find_one (\<lambda>d. doc_oid d = oid) (job_descriptions st) = Some d
                \<and> JobDescription_init (merge_recruiter_data st (d\<lparr>doc_id := Some (doc_oid d)\<rparr>))
                    = Inr j
              \<longrightarrow> (if status (doc_base d) \<noteq> ''OPEN''
                   then create_submission st now profile_oid new_oid rnd jd_id comments fname
                          content user
                          = (st, Inl (HTTPException 400 ''Job is not open for applications''))
                   else snd (create_submission st now profile_oid new_oid rnd jd_id comments
                               fname content user)
                          = Inr (Submission_init
                                   \<lparr>sub_oid = new_oid, sub_jd_id = jd_id, sub_comments = comments,
                                    sub_consultant_id = user_id user,
                                    sub_recruiter_id = job_recruiter_id j,
                                    sub_resume_path =
                                      ''uploads/'' @ user_id user @ ''_'' @ jd_id @ ''_'' @ rnd
                                        @ splitext_ext fname,
                                    sub_status = SUBMITTED, sub_recruiter_read = False,
                                    sub_created_at = now, sub_updated_at = now\<rparr>)
                        \<and> submissions (fst (create_submission st now profile_oid new_oid rnd
                                               jd_id comments fname content user))
                          = submissions st
                              @ [\<lparr>sub_oid = new_oid, sub_jd_id = jd_id, sub_comments = comments,
                                  sub_consultant_id = user_id user,
                                  sub_recruiter_id = job_recruiter_id j,
                                  sub_resume_path =
                                    ''uploads/'' @ user_id user @ ''_'' @ jd_id @ ''_'' @ rnd
                                      @ splitext_ext fname,
                                  sub_status = SUBMITTED, sub_recruiter_read = False,
                                  sub_created_at = now, sub_updated_at = now\<rparr>]
                        \<and> map_of (uploads (fst (create_submission st now profile_oid new_oid rnd
                                                  jd_id comments fname content user)))
                            (''uploads/'' @ user_id user @ ''_'' @ jd_id @ ''_'' @ rnd
                               @ splitext_ext fname)
                          = Some content
                        \<and> doc_recruiter_id d = Some (job_recruiter_id j)))"
proof -
  have gate: "require_role CONSULTANT user = Inr user"
    using assms(2) by (auto simp: require_role_def)
  have nf: "find_one (\<lambda>d. doc_oid d = oid) (job_descriptions st) = None \<longrightarrow>
            create_submission st now profile_oid new_oid rnd jd_id comments fname content user
              = (st, Inl (HTTPException 404 ''Job not found''))"
    using assms(1,3)
    by (simp add: create_submission_def gate JobRepository_get_by_id_def get_database_def)
  have found: "\<forall>d j. find_one (\<lambda>d. doc_oid d = oid) (job_descriptions st) = Some d
                \<and> JobDescription_init (merge_recruiter_data st (d\<lparr>doc_id := Some (doc_oid d)\<rparr>))
                    = Inr j
              \<longrightarrow> (if status (doc_base d) \<noteq> ''OPEN''
                   then create_submission st now profile_oid new_oid rnd jd_id comments fname
                          content user
                          = (st, Inl (HTTPException 400 ''Job is not open for applications''))
                   else snd (create_submission st now profile_oid new_oid rnd jd_id comments
                               fname content user)
                          = Inr (Submission_init
                                   \<lparr>sub_oid = new_oid, sub_jd_id = jd_id, sub_comments = comments,
                                    sub_consultant_id = user_id user,
                                    sub_recruiter_id = job_recruiter_id j,
                                    sub_resume_path =
                                      ''uploads/'' @ user_id user @ ''_'' @ jd_id @ ''_'' @ rnd
                                        @ splitext_ext fname,
                                    sub_status = SUBMITTED, sub_recruiter_read = False,
                                    sub_created_at = now, sub_updated_at = now\<rparr>)
                        \<and> submissions (fst (create_submission st now profile_oid new_oid rnd
                                               jd_id comments fname content user))
                          = submissions st
                              @ [\<lparr>sub_oid = new_oid, sub_jd_id = jd_id, sub_comments = comments,
                                  sub_consultant_id = user_id user,
                                  sub_recruiter_id = job_recruiter_id j,
                                  sub_resume_path =
                                    ''uploads/'' @ user_id user @ ''_'' @ jd_id @ ''_'' @ rnd
                                      @ splitext_ext fname,
                                  sub_status = SUBMITTED, sub_recruiter_read = False,
                                  sub_created_at = now, sub_updated_at = now\<rparr>]
                        \<and> map_of (uploads (fst (create_submission st now profile_oid new_oid rnd
                                                  jd_id comments fname content user)))
                            (''uploads/'' @ user_id user @ ''_'' @ jd_id @ ''_'' @ rnd
                               @ splitext_ext fname)
                          = Some content
                        \<and> doc_recruiter_id d = Some (job_recruiter_id j))"
  proof (intro allI impI, elim conjE)
    fix d j
    assume f: "find_one (\<lambda>d. doc_oid d = oid) (job_descriptions st) = Some d"
      and i: "JobDescription_init (merge_recruiter_data st (d\<lparr>doc_id := Some (doc_oid d)\<rparr>)) = Inr j"
    note g = get_by_id_found [OF assms(1) assms(3) f i]
    define st1 where "st1 =
      (case ConsultantRepository_get_by_user_id st (user_id user) of
         Inl e \<Rightarrow> st
       | Inr (Some profile) \<Rightarrow> st
       | Inr None \<Rightarrow>
           fst (ConsultantRepository_create_or_update st now profile_oid (user_id user)
                  \<lparr>cpu_experience_years = Some 0, cpu_tech_stack = None,
                   cpu_phone = None, cpu_fields = empty_profile_fields\<rparr>))"
    have fr: "db_initialized st1 = db_initialized st \<and> submissions st1 = submissions st
              \<and> uploads st1 = uploads st"
      unfolding st1_def using create_or_update_frame
      by (simp split: sum.splits option.splits)
    show "if status (doc_base d) \<noteq> ''OPEN''
          then create_submission st now profile_oid new_oid rnd jd_id comments fname
                 content user
                 = (st, Inl (HTTPException 400 ''Job is not open for applications''))
          else snd (create_submission st now profile_oid new_oid rnd jd_id comments
                      fname content user)
                 = Inr (Submission_init
                          \<lparr>sub_oid = new_oid, sub_jd_id = jd_id, sub_comments = comments,
                           sub_consultant_id = user_id user,
                           sub_recruiter_id = job_recruiter_id j,
                           sub_resume_path =
                             ''uploads/'' @ user_id user @ ''_'' @ jd_id @ ''_'' @ rnd
                               @ splitext_ext fname,
                           sub_status = SUBMITTED, sub_recruiter_read = False,
                           sub_created_at = now, sub_updated_at = now\<rparr>)
               \<and> submissions (fst (create_submission st now profile_oid new_oid rnd
                                      jd_id comments fname content user))
                 = submissions st
                     @ [\<lparr>sub_oid = new_oid, sub_jd_id = jd_id, sub_comments = comments,
                         sub_consultant_id = user_id user,
                         sub_recruiter_id = job_recruiter_id j,
                         sub_resume_path =
                           ''uploads/'' @ user_id user @ ''_'' @ jd_id @ ''_'' @ rnd
                             @ splitext_ext fname,
                         sub_status = SUBMITTED, sub_recruiter_read = False,
                         sub_created_at = now, sub_updated_at = now\<rparr>]
               \<and> map_of (uploads (fst (create_submission st now profile_oid new_oid rnd
                                         jd_id comments fname content user)))
                   (''uploads/'' @ user_id user @ ''_'' @ jd_id @ ''_'' @ rnd
                      @ splitext_ext fname)
                 = Some content
               \<and> doc_recruiter_id d = Some (job_recruiter_id j)"
    proof (cases "status (doc_base d) = ''OPEN''")
      case False
      then show ?thesis
        by (simp add: create_submission_def gate g(1) g(2))
    next
      case True
      have "create_submission st now profile_oid new_oid rnd jd_id comments fname content user
            = SubmissionRepository_create
                (st1\<lparr>uploads := write_file (''uploads/'' @ user_id user @ ''_'' @ jd_id @ ''_''
                                            @ rnd @ splitext_ext fname) content (uploads st1)\<rparr>)
                now new_oid \<lparr>sc_jd_id = jd_id, sc_comments = comments\<rparr> (user_id user)
                (job_recruiter_id j)
                (''uploads/'' @ user_id user @ ''_'' @ jd_id @ ''_'' @ rnd @ splitext_ext fname)"
        using True assms(1) fr
        by (simp add: create_submission_def gate g(1) g(2) Let_def st1_def [symmetric]
            SubmissionRepository_create_def get_database_def)
      with True assms(1) fr g(3) show ?thesis
        by (simp add: SubmissionRepository_create_def get_database_def Let_def write_file_def)
    qed
  qed
  from nf found show ?thesis by blast
qed

lemma ex_job_open_read:
  "JobDescription_init
     (merge_recruiter_data ex_state
        ((ex_job ''111111111111111111111111'' (Some ''aaaaaaaaaaaaaaaaaaaaaaaa'') ''Engineer'' ''OPEN'')
           \<lparr>doc_id := Some ''111111111111111111111111''\<rparr>))
     = Inr \<lparr>job_id = ''111111111111111111111111'', job_recruiter_id = ''aaaaaaaaaaaaaaaaaaaaaaaa'',
            job_base = ex_base ''Engineer'' ''OPEN'', job_created_at = 2, job_updated_at = 2,
            recruiter_name = Some ''Rita'', recruiter_email = Some ''rita@example.com''\<rparr>"
  by (simp add: merge_recruiter_data_def JobDescription_init_def ex_job_def ex_base_def
      ex_state_def find_one_def ex_account_def)

theorem create_submission_lifecycle_witness:
  "snd (create_submission ex_state 9 ''999999999999999999999999'' ''000000000000000000000000''
          ''1a2b3c4d'' ''111111111111111111111111'' None ''cv.final.pdf'' ''resume''
          (ex_user ''cccccccccccccccccccccccc'' ''cara@example.com'' ''Cara'' CONSULTANT))
     = Inr (Submission_init
              \<lparr>sub_oid = ''000000000000000000000000'', sub_jd_id = ''111111111111111111111111'',
               sub_comments = None, sub_consultant_id = ''cccccccccccccccccccccccc'',
               sub_recruiter_id = ''aaaaaaaaaaaaaaaaaaaaaaaa'',
               sub_resume_path =
                 ''uploads/cccccccccccccccccccccccc_111111111111111111111111_1a2b3c4d.pdf'',
               sub_status = SUBMITTED, sub_recruiter_read = False, sub_created_at = 9,
               sub_updated_at = 9\<rparr>)"
proof -
  let ?u = "ex_user ''cccccccccccccccccccccccc'' ''cara@example.com'' ''Cara'' CONSULTANT"
  let ?d = "ex_job ''111111111111111111111111'' (Some ''aaaaaaaaaaaaaaaaaaaaaaaa'') ''Engineer'' ''OPEN''"
  have a: "db_initialized ex_state" by (simp add: ex_state_def)
  have r: "user_role ?u = CONSULTANT \<or> user_role ?u = ADMIN" by (simp add: ex_user_def)
  have o: "ObjectId ''111111111111111111111111'' = Inr ''111111111111111111111111''" by simp
  have f: "find_one (\<lambda>d. doc_oid d = ''111111111111111111111111'') (job_descriptions ex_state)
             = Some ?d"
    by (simp add: ex_state_def find_one_def ex_job_def)
  have i: "JobDescription_init (merge_recruiter_data ex_state (?d\<lparr>doc_id := Some (doc_oid ?d)\<rparr>))
             = Inr \<lparr>job_id = ''111111111111111111111111'',
                    job_recruiter_id = ''aaaaaaaaaaaaaaaaaaaaaaaa'',
                    job_base = ex_base ''Engineer'' ''OPEN'', job_created_at = 2,
                    job_updated_at = 2, recruiter_name = Some ''Rita'',
                    recruiter_email = Some ''rita@example.com''\<rparr>"
    using ex_job_open_read by (simp add: ex_job_def)
  have s: "status (doc_base ?d) = ''OPEN''" by (simp add: ex_job_def ex_base_def)
  have e: "splitext_ext ''cv.final.pdf'' = ''.pdf''" by (simp add: splitext_ext_def)
  from create_submission_lifecycle [OF a r o,
         of 9 "''999999999999999999999999''" "''000000000000000000000000''" "''1a2b3c4d''"
            None "''cv.final.pdf''" "''resume''"] f i s
  have "snd (create_submission ex_state 9 ''999999999999999999999999''
               ''000000000000000000000000'' ''1a2b3c4d'' ''111111111111111111111111'' None
               ''cv.final.pdf'' ''resume'' ?u)
        = Inr (Submission_init
                 \<lparr>sub_oid = ''000000000000000000000000'', sub_jd_id = ''111111111111111111111111'',
                  sub_comments = None, sub_consultant_id = user_id ?u,
                  sub_recruiter_id = ''aaaaaaaaaaaaaaaaaaaaaaaa'',
                  sub_resume_path =
                    ''uploads/'' @ user_id ?u @ ''_'' @ ''111111111111111111111111'' @ ''_''
                      @ ''1a2b3c4d'' @ splitext_ext ''cv.final.pdf'',
                  sub_status = SUBMITTED, sub_recruiter_read = False, sub_created_at = 9,
                  sub_updated_at = 9\<rparr>)"
    by (auto split: if_splits)
  then show ?thesis by (simp add: e ex_user_def)
qed

end
